theory Spec2Isabelle
  imports
    Complex_Main
    "HOL-Library.Word"
    "HOL-Library.List_Lexorder"
    "HOL-Library.Multiset"
begin

section \<open>The notes service: values, rows and the table\<close>

text \<open>
  The service of \<^verbatim>\<open>database/notes_api/server.js\<close> maps four HTTP requests to
  statements on one SQLite table. The model has three layers, as the source has:
  the JavaScript values a handler reads from the request, the engine that executes
  a statement on the table, and the four handlers.

  What the handlers take from their environment is an explicit input of the model:
  the time value of the \<^verbatim>\<open>new Date()\<close> that \<^verbatim>\<open>nowIso()\<close> takes, the number
  \<^verbatim>\<open>Number(req.params.id)\<close> evaluates to, and the \<^verbatim>\<open>err\<close> argument the engine
  passes to the callback of each statement (absent when the statement executed).

  The engine is SQLite behind \<^verbatim>\<open>node-sqlite3\<close>; its statements are modelled by their
  meaning on the table. A statement that the engine reports as failed leaves the table
  as it was. Row identities are unbounded natural numbers. A text parameter is bound as
  UTF-8, so what the table holds, and what a later read returns, is the bound string
  with every unpaired surrogate replaced by U+FFFD.
\<close>

subsection \<open>JavaScript strings and \<^verbatim>\<open>String.prototype.trim\<close>\<close>

text \<open>A JavaScript string is a sequence of UTF-16 code units.\<close>

type_synonym jsstring = "16 word list"

text \<open>
  The code units \<^verbatim>\<open>trim\<close> strips: ECMAScript's WhiteSpace (TAB, VT, FF, SP, NBSP,
  ZWNBSP and the Unicode space separators) and LineTerminator (LF, CR, LS, PS).
\<close>

definition is_white_space :: "16 word \<Rightarrow> bool" where
  "is_white_space u \<longleftrightarrow>
     u = 0x0009 \<or> u = 0x000A \<or> u = 0x000B \<or> u = 0x000C \<or> u = 0x000D \<or> u = 0x0020 \<or>
     u = 0x00A0 \<or> u = 0x1680 \<or> (0x2000 \<le> u \<and> u \<le> 0x200A) \<or> u = 0x2028 \<or>
     u = 0x2029 \<or> u = 0x202F \<or> u = 0x205F \<or> u = 0x3000 \<or> u = 0xFEFF"

definition trim :: "jsstring \<Rightarrow> jsstring" where
  "trim s = rev (dropWhile is_white_space (rev (dropWhile is_white_space s)))"

subsection \<open>Text as the table stores it\<close>

text \<open>
  \<^verbatim>\<open>node-sqlite3\<close> binds a JavaScript string as UTF-8 text. A high surrogate followed by
  a low surrogate is one code point and survives the round trip; a surrogate that has no
  partner cannot be encoded and is written as U+FFFD. \<^verbatim>\<open>bind_text s\<close> is the string a
  read of the column returns after \<^verbatim>\<open>s\<close> was bound to it.
\<close>

definition is_high_surrogate :: "16 word \<Rightarrow> bool" where
  "is_high_surrogate u \<longleftrightarrow> 0xD800 \<le> u \<and> u \<le> 0xDBFF"

definition is_low_surrogate :: "16 word \<Rightarrow> bool" where
  "is_low_surrogate u \<longleftrightarrow> 0xDC00 \<le> u \<and> u \<le> 0xDFFF"

definition is_surrogate :: "16 word \<Rightarrow> bool" where
  "is_surrogate u \<longleftrightarrow> is_high_surrogate u \<or> is_low_surrogate u"

fun bind_text :: "jsstring \<Rightarrow> jsstring" where
  "bind_text [] = []"
| "bind_text [u] = [if is_surrogate u then 0xFFFD else u]"
| "bind_text (u # v # s) =
     (if is_high_surrogate u \<and> is_low_surrogate v then u # v # bind_text s
      else (if is_surrogate u then 0xFFFD else u) # bind_text (v # s))"

text \<open>A string is well-formed UTF-16 when every surrogate in it is part of a pair.\<close>

fun well_formed_utf16 :: "jsstring \<Rightarrow> bool" where
  "well_formed_utf16 [] = True"
| "well_formed_utf16 [u] = (\<not> is_surrogate u)"
| "well_formed_utf16 (u # v # s) =
     (if is_high_surrogate u \<and> is_low_surrogate v then well_formed_utf16 s
      else \<not> is_surrogate u \<and> well_formed_utf16 (v # s))"

subsection \<open>The clock and \<^verbatim>\<open>Date.prototype.toISOString\<close>\<close>

text \<open>
  A time value is a number of milliseconds since 1970-01-01T00:00:00Z. The functions
  below are ECMAScript's date arithmetic (Day, TimeWithinDay, DaysInYear, DayFromYear,
  YearFromTime, InLeapYear, DayWithinYear, MonthFromTime, DateFromTime, HourFromTime,
  MinFromTime, SecFromTime, msFromTime). ECMAScript gives \<^verbatim>\<open>YearFromTime(t)\<close> as the largest
  year whose first day is not after the day of \<^verbatim>\<open>t\<close>; here it is computed from an estimate
  that is off by at most one, and the lemma \<^verbatim>\<open>YearFromTime_bounds\<close> below shows that the
  result is that year.
\<close>

definition msPerDay :: int where "msPerDay = 86400000"

definition Day :: "int \<Rightarrow> int" where "Day t = t div msPerDay"
definition TimeWithinDay :: "int \<Rightarrow> int" where "TimeWithinDay t = t mod msPerDay"

definition DaysInYear :: "int \<Rightarrow> int" where
  "DaysInYear y =
     (if y mod 4 \<noteq> 0 then 365 else if y mod 100 \<noteq> 0 then 366
      else if y mod 400 \<noteq> 0 then 365 else 366)"

definition DayFromYear :: "int \<Rightarrow> int" where
  "DayFromYear y =
     365 * (y - 1970) + (y - 1969) div 4 - (y - 1901) div 100 + (y - 1601) div 400"

definition YearFromTime :: "int \<Rightarrow> int" where
  "YearFromTime t =
     (let y = 1970 + (400 * Day t) div 146097 in
      if DayFromYear (y + 1) \<le> Day t then y + 1
      else if DayFromYear y \<le> Day t then y
      else y - 1)"

definition InLeapYear :: "int \<Rightarrow> int" where
  "InLeapYear t = (if DaysInYear (YearFromTime t) = 366 then 1 else 0)"

definition DayWithinYear :: "int \<Rightarrow> int" where
  "DayWithinYear t = Day t - DayFromYear (YearFromTime t)"

definition MonthFromTime :: "int \<Rightarrow> int" where
  "MonthFromTime t =
     (let d = DayWithinYear t; l = InLeapYear t in
      if d < 31 then 0 else if d < 59 + l then 1 else if d < 90 + l then 2
      else if d < 120 + l then 3 else if d < 151 + l then 4 else if d < 181 + l then 5
      else if d < 212 + l then 6 else if d < 243 + l then 7 else if d < 273 + l then 8
      else if d < 304 + l then 9 else if d < 334 + l then 10 else 11)"

definition DateFromTime :: "int \<Rightarrow> int" where
  "DateFromTime t =
     (let d = DayWithinYear t; l = InLeapYear t; m = MonthFromTime t in
      if m = 0 then d + 1 else if m = 1 then d - 30 else if m = 2 then d - 58 - l
      else if m = 3 then d - 89 - l else if m = 4 then d - 119 - l
      else if m = 5 then d - 150 - l else if m = 6 then d - 180 - l
      else if m = 7 then d - 211 - l else if m = 8 then d - 242 - l
      else if m = 9 then d - 272 - l else if m = 10 then d - 303 - l else d - 333 - l)"

definition HourFromTime :: "int \<Rightarrow> int" where "HourFromTime t = (t div 3600000) mod 24"
definition MinFromTime :: "int \<Rightarrow> int" where "MinFromTime t = (t div 60000) mod 60"
definition SecFromTime :: "int \<Rightarrow> int" where "SecFromTime t = (t div 1000) mod 60"
definition msFromTime :: "int \<Rightarrow> int" where "msFromTime t = t mod 1000"

text \<open>
  \<^verbatim>\<open>toISOString\<close> writes \<^verbatim>\<open>YYYY-MM-DDTHH:mm:ss.sssZ\<close>, with the year as a sign and six
  digits when it is not in 0..9999. \<^verbatim>\<open>digit k\<close> is the character of the last decimal digit
  of \<^verbatim>\<open>k\<close>.
\<close>

definition digit :: "int \<Rightarrow> 16 word" where
  "digit k = [0x30, 0x31, 0x32, 0x33, 0x34, 0x35, 0x36, 0x37, 0x38, 0x39] ! nat (k mod 10)"

definition pad2 :: "int \<Rightarrow> jsstring" where "pad2 n = [digit (n div 10), digit n]"
definition pad3 :: "int \<Rightarrow> jsstring" where "pad3 n = [digit (n div 100), digit (n div 10), digit n]"
definition pad4 :: "int \<Rightarrow> jsstring" where
  "pad4 n = [digit (n div 1000), digit (n div 100), digit (n div 10), digit n]"
definition pad6 :: "int \<Rightarrow> jsstring" where
  "pad6 n = [digit (n div 100000), digit (n div 10000), digit (n div 1000), digit (n div 100),
             digit (n div 10), digit n]"

definition toISOString :: "int \<Rightarrow> jsstring" where
  "toISOString t =
     (let y = YearFromTime t in
      (if 0 \<le> y \<and> y \<le> 9999 then pad4 y
       else (if y < 0 then 0x2D else 0x2B) # pad6 \<bar>y\<bar>) @
      [0x2D] @ pad2 (MonthFromTime t + 1) @ [0x2D] @ pad2 (DateFromTime t) @ [0x54] @
      pad2 (HourFromTime t) @ [0x3A] @ pad2 (MinFromTime t) @ [0x3A] @ pad2 (SecFromTime t) @
      [0x2E] @ pad3 (msFromTime t) @ [0x5A])"

text \<open>
  The shape of an ISO 8601 date-time in UTC as ECMAScript writes it: four digits of year,
  or a sign and six digits, then \<^verbatim>\<open>-MM-DDTHH:mm:ss.sssZ\<close>.
\<close>

definition is_digit :: "16 word \<Rightarrow> bool" where
  "is_digit u \<longleftrightarrow> 0x30 \<le> u \<and> u \<le> 0x39"

definition iso_tail :: "jsstring \<Rightarrow> bool" where
  "iso_tail r \<longleftrightarrow>
     length r = 20 \<and> r ! 0 = 0x2D \<and> is_digit (r ! 1) \<and> is_digit (r ! 2) \<and>
     r ! 3 = 0x2D \<and> is_digit (r ! 4) \<and> is_digit (r ! 5) \<and>
     r ! 6 = 0x54 \<and> is_digit (r ! 7) \<and> is_digit (r ! 8) \<and>
     r ! 9 = 0x3A \<and> is_digit (r ! 10) \<and> is_digit (r ! 11) \<and>
     r ! 12 = 0x3A \<and> is_digit (r ! 13) \<and> is_digit (r ! 14) \<and>
     r ! 15 = 0x2E \<and> is_digit (r ! 16) \<and> is_digit (r ! 17) \<and> is_digit (r ! 18) \<and>
     r ! 19 = 0x5A"

definition iso_8601_utc :: "jsstring \<Rightarrow> bool" where
  "iso_8601_utc s \<longleftrightarrow>
     (length s = 24 \<and> list_all is_digit (take 4 s) \<and> iso_tail (drop 4 s)) \<or>
     (length s = 27 \<and> (s ! 0 = 0x2B \<or> s ! 0 = 0x2D) \<and>
      list_all is_digit (take 6 (drop 1 s)) \<and> iso_tail (drop 7 s))"

subsection \<open>JavaScript numbers and request values\<close>

text \<open>
  A JavaScript number is NaN, an infinity or a finite double; every finite double is a
  rational number. \<^verbatim>\<open>isInteger\<close> is \<^verbatim>\<open>Number.isInteger\<close>, and \<^verbatim>\<open>le_zero\<close> is the
  comparison \<^verbatim>\<open>id <= 0\<close>, which is false at NaN.
\<close>

datatype jsnumber = NaN | Infinity bool | Finite rat

fun isInteger :: "jsnumber \<Rightarrow> bool" where
  "isInteger (Finite q) = (of_int \<lfloor>\<bar>q\<bar>\<rfloor> = \<bar>q\<bar>)"
| "isInteger _ = False"

fun le_zero :: "jsnumber \<Rightarrow> bool" where
  "le_zero NaN = False"
| "le_zero (Infinity positive) = (\<not> positive)"
| "le_zero (Finite q) = (q \<le> 0)"

text \<open>
  The values a property of the parsed JSON body can have; \<^verbatim>\<open>JUndefined\<close> is what the
  destructuring \<^verbatim>\<open>const { title, content } = req.body || {}\<close> yields for a property
  that is absent.
\<close>

datatype jsval =
    JUndefined
  | JNull
  | JBoolean bool
  | JNumber jsnumber
  | JString jsstring
  | JArray "jsval list"
  | JObject "(jsstring \<times> jsval) list"

fun typeof :: "jsval \<Rightarrow> string" where
  "typeof JUndefined = ''undefined''"
| "typeof JNull = ''object''"
| "typeof (JBoolean _) = ''boolean''"
| "typeof (JNumber _) = ''number''"
| "typeof (JString _) = ''string''"
| "typeof (JArray _) = ''object''"
| "typeof (JObject _) = ''object''"

text \<open>
  \<^verbatim>\<open>text_of v\<close> is the string \<^verbatim>\<open>v\<close> when \<^verbatim>\<open>v\<close> is one. The handlers read it only behind
  the test \<^verbatim>\<open>typeof v !== "string"\<close>, so its value elsewhere is never used.
\<close>

fun text_of :: "jsval \<Rightarrow> jsstring" where
  "text_of (JString s) = s"
| "text_of _ = []"

text \<open>The test \<^verbatim>\<open>typeof v !== "string" || v.trim().length === 0\<close> of both handlers.\<close>

definition not_text :: "jsval \<Rightarrow> bool" where
  "not_text v \<longleftrightarrow> typeof v \<noteq> ''string'' \<or> length (trim (text_of v)) = 0"

subsection \<open>The table \<^verbatim>\<open>notes\<close>\<close>

text \<open>
  \<^verbatim>\<open>CREATE TABLE notes (id INTEGER PRIMARY KEY AUTOINCREMENT, title TEXT NOT NULL,
  content TEXT NOT NULL, created_at TEXT NOT NULL)\<close>. The column \<^verbatim>\<open>id\<close> is the field
  \<^verbatim>\<open>note_id\<close>.
\<close>

record row =
  note_id :: nat
  title :: jsstring
  content :: jsstring
  created_at :: jsstring

text \<open>
  The database: the rows in insertion order, the counter \<^verbatim>\<open>AUTOINCREMENT\<close> keeps (the
  largest identity the table ever held), and the connection's last inserted identity.
\<close>

record db =
  rows :: "row list"
  seq :: nat
  last_insert_rowid :: nat

definition init_db :: db where
  "init_db = \<lparr>rows = [], seq = 0, last_insert_rowid = 0\<rparr>"

text \<open>
  \<^verbatim>\<open>AUTOINCREMENT\<close>: the new identity is one more than the largest identity that has
  ever been in the table.
\<close>

definition next_rowid :: "db \<Rightarrow> nat" where
  "next_rowid d = Suc (fold max (map note_id (rows d)) (seq d))"

text \<open>\<^verbatim>\<open>WHERE id = ?\<close> with a number bound to the parameter.\<close>

fun where_id :: "jsnumber \<Rightarrow> row \<Rightarrow> bool" where
  "where_id (Finite q) r = (of_nat (note_id r) = q)"
| "where_id _ r = False"

datatype column = Title | Content

text \<open>One assignment \<^verbatim>\<open>title = ?\<close> or \<^verbatim>\<open>content = ?\<close> with the text \<^verbatim>\<open>v\<close> bound to it.\<close>

fun set_column :: "column \<times> jsstring \<Rightarrow> row \<Rightarrow> row" where
  "set_column (Title, v) r = r\<lparr>title := bind_text v\<rparr>"
| "set_column (Content, v) r = r\<lparr>content := bind_text v\<rparr>"

text \<open>
  The three statements the handlers run: \<^verbatim>\<open>INSERT INTO notes (title, content,
  created_at) VALUES (?, ?, ?)\<close>, \<^verbatim>\<open>UPDATE notes SET ... WHERE id = ?\<close> with the
  assignments the handler collected, and \<^verbatim>\<open>DELETE FROM notes WHERE id = ?\<close>.
\<close>

datatype statement =
    INSERT jsstring jsstring jsstring
  | UPDATE "(column \<times> jsstring) list" jsnumber
  | DELETE jsnumber

record run_result =
  lastID :: nat
  changes :: nat

fun exec :: "statement \<Rightarrow> db \<Rightarrow> run_result \<times> db" where
  "exec (INSERT t c ts) d =
     (let k = next_rowid d in
      (\<lparr>lastID = k, changes = 1\<rparr>,
       d\<lparr>rows := rows d @ [\<lparr>note_id = k, title = bind_text t, content = bind_text c,
                              created_at = bind_text ts\<rparr>],
         seq := k, last_insert_rowid := k\<rparr>))"
| "exec (UPDATE sets i) d =
     (\<lparr>lastID = last_insert_rowid d, changes = length (filter (where_id i) (rows d))\<rparr>,
      d\<lparr>rows := map (\<lambda>r. if where_id i r then fold set_column sets r else r) (rows d)\<rparr>)"
| "exec (DELETE i) d =
     (\<lparr>lastID = last_insert_rowid d, changes = length (filter (where_id i) (rows d))\<rparr>,
      d\<lparr>rows := filter (\<lambda>r. \<not> where_id i r) (rows d)\<rparr>)"

text \<open>
  \<^verbatim>\<open>ORDER BY created_at DESC, id DESC\<close>: \<^verbatim>\<open>precedes a b\<close> holds when row \<^verbatim>\<open>a\<close> may stand
  before row \<^verbatim>\<open>b\<close>. Text compares lexicographically by code unit, a proper prefix
  first; on the ASCII strings \<^verbatim>\<open>nowIso()\<close> produces this is the byte order of the column's
  default collation. \<^verbatim>\<open>order_by\<close> sorts the rows by insertion into a list ordered so.
\<close>

definition precedes :: "row \<Rightarrow> row \<Rightarrow> bool" where
  "precedes a b \<longleftrightarrow>
     created_at b < created_at a \<or> (created_at a = created_at b \<and> note_id b \<le> note_id a)"

fun place :: "row \<Rightarrow> row list \<Rightarrow> row list" where
  "place r [] = [r]"
| "place r (x # xs) = (if precedes r x then r # x # xs else x # place r xs)"

definition order_by :: "row list \<Rightarrow> row list" where
  "order_by rs = foldr place rs []"

subsection \<open>The promisified helpers\<close>

text \<open>
  Each helper rejects with the engine's error when the callback receives one and
  resolves with the statement's result otherwise. The first argument is that
  \<^verbatim>\<open>err\<close>: the message of the error, or \<^verbatim>\<open>None\<close>.
\<close>

definition runAsync :: "string option \<Rightarrow> statement \<Rightarrow> db \<Rightarrow> string + run_result \<times> db" where
  "runAsync err sql d = (case err of Some msg \<Rightarrow> Inl msg | None \<Rightarrow> Inr (exec sql d))"

text \<open>\<^verbatim>\<open>SELECT id, title, content, created_at FROM notes WHERE id = ?\<close>, first row or none.\<close>

definition getAsync :: "string option \<Rightarrow> jsnumber \<Rightarrow> db \<Rightarrow> string + row option" where
  "getAsync err i d = (case err of Some msg \<Rightarrow> Inl msg | None \<Rightarrow> Inr (find (where_id i) (rows d)))"

text \<open>\<^verbatim>\<open>SELECT id, title, content, created_at FROM notes ORDER BY created_at DESC, id DESC\<close>.\<close>

definition allAsync :: "string option \<Rightarrow> db \<Rightarrow> string + row list" where
  "allAsync err d = (case err of Some msg \<Rightarrow> Inl msg | None \<Rightarrow> Inr (order_by (rows d)))"

section \<open>The handlers\<close>

text \<open>
  The environment of one request: the time value of the clock when the handler reads it,
  and the \<^verbatim>\<open>err\<close> of the statements the handler issues through \<^verbatim>\<open>runAsync\<close>, \<^verbatim>\<open>getAsync\<close>
  and \<^verbatim>\<open>allAsync\<close> (a handler issues at most one statement through each).
\<close>

record env =
  clock :: int
  run_err :: "string option"
  get_err :: "string option"
  all_err :: "string option"

text \<open>\<^verbatim>\<open>nowIso()\<close> returns \<^verbatim>\<open>new Date().toISOString()\<close>.\<close>

definition nowIso :: "env \<Rightarrow> jsstring" where
  "nowIso e = toISOString (clock e)"

datatype json =
    ErrorJson string
  | NoteJson "row option"
  | NotesJson "row list"
  | DeletedJson bool

datatype response = Response (status: nat) (body: json)

text \<open>\<^verbatim>\<open>GET /api/notes\<close>\<close>

definition get_notes :: "env \<Rightarrow> db \<Rightarrow> response \<times> db" where
  "get_notes e d =
     (case allAsync (all_err e) d of
        Inl msg \<Rightarrow> (Response 500 (ErrorJson msg), d)
      | Inr rs \<Rightarrow> (Response 200 (NotesJson rs), d))"

text \<open>\<^verbatim>\<open>POST /api/notes\<close>\<close>

definition post_notes :: "env \<Rightarrow> jsval \<Rightarrow> jsval \<Rightarrow> db \<Rightarrow> response \<times> db" where
  "post_notes e title' content' d =
     (if not_text title' then (Response 400 (ErrorJson ''title is required''), d)
      else if not_text content' then (Response 400 (ErrorJson ''content is required''), d)
      else
        let created_at' = nowIso e in
        case runAsync (run_err e)
               (INSERT (trim (text_of title')) (trim (text_of content')) created_at') d of
          Inl msg \<Rightarrow> (Response 500 (ErrorJson msg), d)
        | Inr (result, d') \<Rightarrow>
            (case getAsync (get_err e) (Finite (of_nat (lastID result))) d' of
               Inl msg \<Rightarrow> (Response 500 (ErrorJson msg), d')
             | Inr created \<Rightarrow> (Response 201 (NoteJson created), d')))"

text \<open>\<^verbatim>\<open>PUT /api/notes/:id\<close>; \<^verbatim>\<open>id'\<close> is \<^verbatim>\<open>Number(req.params.id)\<close>.\<close>

definition put_note :: "env \<Rightarrow> jsnumber \<Rightarrow> jsval \<Rightarrow> jsval \<Rightarrow> db \<Rightarrow> response \<times> db" where
  "put_note e id' title' content' d =
     (if \<not> isInteger id' \<or> le_zero id' then (Response 400 (ErrorJson ''invalid id''), d)
      else if title' \<noteq> JUndefined \<and> not_text title'
        then (Response 400 (ErrorJson ''title must be a non-empty string''), d)
      else if content' \<noteq> JUndefined \<and> not_text content'
        then (Response 400 (ErrorJson ''content must be a non-empty string''), d)
      else
        let updates =
              (if title' \<noteq> JUndefined then [(Title, trim (text_of title'))] else []) @
              (if content' \<noteq> JUndefined then [(Content, trim (text_of content'))] else [])
        in
        if length updates = 0 then (Response 400 (ErrorJson ''nothing to update''), d)
        else
          case runAsync (run_err e) (UPDATE updates id') d of
            Inl msg \<Rightarrow> (Response 500 (ErrorJson msg), d)
          | Inr (result, d') \<Rightarrow>
              if changes result = 0 then (Response 404 (ErrorJson ''note not found''), d')
              else
                (case getAsync (get_err e) id' d' of
                   Inl msg \<Rightarrow> (Response 500 (ErrorJson msg), d')
                 | Inr updated \<Rightarrow> (Response 200 (NoteJson updated), d')))"

text \<open>\<^verbatim>\<open>DELETE /api/notes/:id\<close>\<close>

definition delete_note :: "env \<Rightarrow> jsnumber \<Rightarrow> db \<Rightarrow> response \<times> db" where
  "delete_note e id' d =
     (if \<not> isInteger id' \<or> le_zero id' then (Response 400 (ErrorJson ''invalid id''), d)
      else
        case runAsync (run_err e) (DELETE id') d of
          Inl msg \<Rightarrow> (Response 500 (ErrorJson msg), d)
        | Inr (result, d') \<Rightarrow>
            if changes result = 0 then (Response 404 (ErrorJson ''note not found''), d')
            else (Response 200 (DeletedJson True), d'))"

text \<open>A request to the service, and the run of a sequence of requests.\<close>

datatype request =
    List env
  | Create env jsval jsval
  | Update env jsnumber jsval jsval
  | Delete env jsnumber

fun handle :: "request \<Rightarrow> db \<Rightarrow> response \<times> db" where
  "handle (List e) d = get_notes e d"
| "handle (Create e t c) d = post_notes e t c d"
| "handle (Update e i t c) d = put_note e i t c d"
| "handle (Delete e i) d = delete_note e i d"

fun serve :: "request list \<Rightarrow> db \<Rightarrow> db" where
  "serve [] d = d"
| "serve (rq # rqs) d = serve rqs (snd (handle rq d))"

text \<open>
  An environment in which the engine executes every statement; \<^verbatim>\<open>tv\<close> is the clock's
  time value.
\<close>

definition engine_ok :: "int \<Rightarrow> env" where
  "engine_ok tv = \<lparr>clock = tv, run_err = None, get_err = None, all_err = None\<rparr>"

text \<open>
  What the data model asks of a stored title or content: the text is its own trim and is
  not empty. \<^verbatim>\<open>table_ok\<close> says so of every row of the table.
\<close>

definition stored_text_ok :: "jsstring \<Rightarrow> bool" where
  "stored_text_ok s \<longleftrightarrow> trim s = s \<and> 0 < length s"

definition table_ok :: "db \<Rightarrow> bool" where
  "table_ok d \<longleftrightarrow> list_all (\<lambda>r. stored_text_ok (title r) \<and> stored_text_ok (content r)) (rows d)"

text \<open>
  The row \<^verbatim>\<open>UPDATE notes SET ...\<close> writes in place of a matching row \<^verbatim>\<open>r\<close> when the
  handler was given the title \<^verbatim>\<open>t\<close> and the content \<^verbatim>\<open>c\<close>; it states the effect of the
  collected assignments in closed form and is used in the proofs only.
\<close>

definition updated_row :: "jsval \<Rightarrow> jsval \<Rightarrow> row \<Rightarrow> row" where
  "updated_row t c r =
     r\<lparr>title := (if t = JUndefined then title r else bind_text (trim (text_of t))),
       content := (if c = JUndefined then content r else bind_text (trim (text_of c)))\<rparr>"

text \<open>
  \<^verbatim>\<open>pinned k ts d\<close>: the identity \<^verbatim>\<open>k\<close> has been handed out (the counter has reached it)
  and any row that has it carries the \<^verbatim>\<open>created_at\<close> value \<^verbatim>\<open>ts\<close>. Used in the proofs only.
\<close>

definition pinned :: "nat \<Rightarrow> jsstring \<Rightarrow> db \<Rightarrow> bool" where
  "pinned k ts d \<longleftrightarrow> k \<le> seq d \<and> list_all (\<lambda>r. note_id r = k \<longrightarrow> created_at r = ts) (rows d)"

section \<open>Properties of the building blocks\<close>

subsection \<open>Trimming\<close>

lemma trim_idem: "trim (trim s) = trim s"
proof -
  define ys where "ys = dropWhile is_white_space s"
  define zs where "zs = rev (dropWhile is_white_space (rev ys))"
  have hd: "ys = [] \<or> \<not> is_white_space (hd ys)"
    unfolding ys_def by (metis hd_dropWhile)
  have "\<exists>ws. ys = zs @ ws"
    unfolding zs_def by (metis rev_append rev_rev_ident takeWhile_dropWhile_id)
  then obtain ws where ys: "ys = zs @ ws" by blast
  have "dropWhile is_white_space zs = zs"
  proof (cases zs)
    case Nil then show ?thesis by simp
  next
    case (Cons z zs')
    with ys hd have "\<not> is_white_space z" by auto
    with Cons show ?thesis by simp
  qed
  moreover have "dropWhile is_white_space (rev zs) = rev zs"
    unfolding zs_def by simp
  ultimately show ?thesis
    unfolding trim_def ys_def[symmetric] zs_def[symmetric] by simp
qed

lemma trim_ends:
  assumes "trim u = u" and "u \<noteq> []"
  shows "\<not> is_white_space (hd u) \<and> \<not> is_white_space (last u)"
proof -
  define ys where "ys = dropWhile is_white_space u"
  have u: "u = rev (dropWhile is_white_space (rev ys))"
    using assms(1) unfolding trim_def ys_def by simp
  then have r: "rev u = dropWhile is_white_space (rev ys)" by simp
  from assms(2) have "rev u \<noteq> []" by simp
  with r have "\<not> is_white_space (hd (rev u))" by (metis hd_dropWhile)
  then have l: "\<not> is_white_space (last u)" using assms(2) by (simp add: hd_rev)
  have "\<exists>ws. ys = u @ ws"
    using u by (metis rev_append rev_rev_ident takeWhile_dropWhile_id)
  then obtain ws where ys: "ys = u @ ws" by blast
  with assms(2) have "ys \<noteq> []" and "hd ys = hd u" by simp_all
  then have "\<not> is_white_space (hd u)" unfolding ys_def by (metis hd_dropWhile)
  with l show ?thesis by simp
qed

lemma ends_trim:
  assumes "u \<noteq> []" and "\<not> is_white_space (hd u)" and "\<not> is_white_space (last u)"
  shows "trim u = u"
proof -
  from assms(1,2) have a: "dropWhile is_white_space u = u" by (cases u) simp_all
  define v where "v = rev u"
  from assms(1,3) have "v \<noteq> []" and "\<not> is_white_space (hd v)"
    unfolding v_def by (simp_all add: hd_rev)
  then have "dropWhile is_white_space v = v" by (cases v) simp_all
  with a show ?thesis unfolding trim_def v_def by simp
qed

subsection \<open>Text as the table stores it\<close>

lemma surrogate_lower: "is_surrogate u \<Longrightarrow> 0xD800 \<le> u"
proof -
  assume "is_surrogate u"
  then consider "0xD800 \<le> u" | "0xDC00 \<le> u"
    by (auto simp: is_surrogate_def is_high_surrogate_def is_low_surrogate_def)
  then show ?thesis
  proof cases
    case 1
    then show ?thesis .
  next
    case 2
    have "(0xD800 :: 16 word) \<le> 0xDC00" by simp
    from this 2 show ?thesis by (rule order_trans)
  qed
qed

lemma surrogate_upper: "is_surrogate u \<Longrightarrow> u \<le> 0xDFFF"
proof -
  assume "is_surrogate u"
  then consider "u \<le> 0xDBFF" | "u \<le> 0xDFFF"
    by (auto simp: is_surrogate_def is_high_surrogate_def is_low_surrogate_def)
  then show ?thesis
  proof cases
    case 1
    have "(0xDBFF :: 16 word) \<le> 0xDFFF" by simp
    with 1 show ?thesis by (rule order_trans)
  next
    case 2
    then show ?thesis .
  qed
qed

lemma white_space_not_surrogate:
  assumes "is_white_space u"
  shows "\<not> is_surrogate u"
proof
  assume s: "is_surrogate u"
  then have r: "0xD800 \<le> u" by (rule surrogate_lower)
  from s have q: "u \<le> 0xDFFF" by (rule surrogate_upper)
  have t: False if "u \<le> 0x200A"
    using order_trans[OF r that] by simp
  from assms show False
    unfolding is_white_space_def using r q t by (elim disjE conjE) simp_all
qed

lemma replacement_not_white_space: "\<not> is_white_space 0xFFFD"
  by (simp add: is_white_space_def)

lemma bind_text_pointwise:
  "list_all2 (\<lambda>a b. b = a \<or> (is_surrogate a \<and> b = 0xFFFD)) s (bind_text s)"
  by (induction s rule: bind_text.induct) (auto simp: is_surrogate_def)

lemma length_bind_text: "length (bind_text s) = length s"
  using bind_text_pointwise[of s] by (simp add: list_all2_lengthD)

lemma white_space_bind_text:
  assumes "i < length s"
  shows "is_white_space (bind_text s ! i) \<longleftrightarrow> is_white_space (s ! i)"
proof -
  from list_all2_nthD[OF bind_text_pointwise assms, of ]
  have "bind_text s ! i = s ! i \<or> (is_surrogate (s ! i) \<and> bind_text s ! i = 0xFFFD)" .
  then show ?thesis
    using white_space_not_surrogate[of "s ! i"] replacement_not_white_space by auto
qed

lemma stored_text_ok_bind_text:
  assumes "stored_text_ok u"
  shows "stored_text_ok (bind_text u)"
proof -
  from assms have u: "trim u = u" "u \<noteq> []" by (auto simp: stored_text_ok_def)
  then have e: "\<not> is_white_space (hd u)" "\<not> is_white_space (last u)"
    using trim_ends by simp_all
  from u have n: "bind_text u \<noteq> []" using length_bind_text[of u] by auto
  from u have "0 < length u" by simp
  then have "\<not> is_white_space (hd (bind_text u))"
    using e(1) u(2) n white_space_bind_text[of 0 u] by (simp add: hd_conv_nth)
  moreover have "\<not> is_white_space (last (bind_text u))"
    using e(2) u(2) n white_space_bind_text[of "length u - 1" u]
    by (simp add: last_conv_nth length_bind_text)
  ultimately have "trim (bind_text u) = bind_text u" using n by (simp add: ends_trim)
  with n show ?thesis by (simp add: stored_text_ok_def)
qed

lemma bind_text_well_formed: "well_formed_utf16 s \<Longrightarrow> bind_text s = s"
  by (induction s rule: bind_text.induct) (auto split: if_split_asm)

lemma bind_text_no_surrogate: "list_all (\<lambda>u. \<not> is_surrogate u) s \<Longrightarrow> bind_text s = s"
  by (induction s rule: bind_text.induct) (auto simp: is_surrogate_def)

subsection \<open>The clock\<close>

lemma YearFromTime_bounds:
  "DayFromYear (YearFromTime t) \<le> Day t \<and> Day t < DayFromYear (YearFromTime t + 1)"
proof -
  define d where "d = Day t"
  define x where "x = (400 * d) div 146097"
  have x: "146097 * x \<le> 400 * d" "400 * d < 146097 * (x + 1)"
    unfolding x_def by (simp_all add: algebra_simps div_mult_mod_eq[symmetric] del: div_mult_mod_eq)
  have up: "d < DayFromYear (1970 + x + 2)"
    using x unfolding DayFromYear_def by simp
  have lo: "DayFromYear (1970 + x - 1) \<le> d"
    using x unfolding DayFromYear_def by simp
  have y: "YearFromTime t =
      (if DayFromYear (1970 + x + 1) \<le> d then 1970 + x + 1
       else if DayFromYear (1970 + x) \<le> d then 1970 + x else 1970 + x - 1)"
    unfolding YearFromTime_def d_def x_def Let_def by (simp only:)
  have e1: "1970 + x + 1 + 1 = 1970 + x + 2" and e2: "1970 + x - 1 + 1 = 1970 + x" by simp_all
  show ?thesis
    unfolding y d_def[symmetric] using up lo by (simp add: e1 e2 del: add_diff_cancel)
qed

lemma DayFromYear_mono: "DayFromYear y < DayFromYear (y + 1)"
proof -
  define a0 where "a0 = (y - 1969) div 4"
  define a1 where "a1 = (y + 1 - 1969) div 4"
  define b0 where "b0 = (y - 1901) div 100"
  define b1 where "b1 = (y + 1 - 1901) div 100"
  define c0 where "c0 = (y - 1601) div 400"
  define c1 where "c1 = (y + 1 - 1601) div 400"
  have a: "a0 \<le> a1" unfolding a0_def a1_def by (rule zdiv_mono1) simp_all
  have "y + 1 - 1901 \<le> y - 1901 + 100" by simp
  then have "(y + 1 - 1901) div 100 \<le> (y - 1901 + 100) div 100" by (rule zdiv_mono1) simp
  then have b: "b1 \<le> b0 + 1" unfolding b0_def b1_def by simp
  have c: "c0 \<le> c1" unfolding c0_def c1_def by (rule zdiv_mono1) simp_all
  have l: "DayFromYear y = 365 * (y - 1970) + a0 - b0 + c0"
    unfolding DayFromYear_def a0_def b0_def c0_def by (rule refl)
  have r: "DayFromYear (y + 1) = 365 * (y + 1 - 1970) + a1 - b1 + c1"
    unfolding DayFromYear_def a1_def b1_def c1_def by (rule refl)
  show ?thesis unfolding l r using a b c by (simp add: algebra_simps)
qed

lemma is_digit_digit: "is_digit (digit k)"
proof -
  have "nat (k mod 10) < 10" by simp
  moreover have "list_all is_digit [0x30, 0x31, 0x32, 0x33, 0x34, 0x35, 0x36, 0x37, 0x38, 0x39]"
    by (simp add: is_digit_def)
  ultimately show ?thesis unfolding digit_def by (simp add: list_all_length)
qed

lemma digit_not_surrogate: "is_digit u \<Longrightarrow> \<not> is_surrogate u"
proof
  assume d: "is_digit u" and "is_surrogate u"
  then have "0xD800 \<le> u" by (simp add: surrogate_lower)
  moreover from d have "u \<le> 0x39" by (simp add: is_digit_def)
  ultimately have "(0xD800 :: 16 word) \<le> 0x39" by (rule order_trans)
  then show False by simp
qed

lemma iso_8601_utc_toISOString: "iso_8601_utc (toISOString t)"
  by (simp add: iso_8601_utc_def iso_tail_def toISOString_def Let_def pad2_def pad3_def pad4_def
      pad6_def is_digit_digit)

lemma no_surrogate_toISOString: "list_all (\<lambda>u. \<not> is_surrogate u) (toISOString t)"
proof -
  have p: "\<not> is_surrogate 0x2D" "\<not> is_surrogate 0x2B" "\<not> is_surrogate 0x54"
    "\<not> is_surrogate 0x3A" "\<not> is_surrogate 0x2E" "\<not> is_surrogate 0x5A"
    by (simp_all add: is_surrogate_def is_high_surrogate_def is_low_surrogate_def)
  have d: "\<not> is_surrogate (digit k)" for k
    by (rule digit_not_surrogate[OF is_digit_digit])
  show ?thesis
    by (simp add: toISOString_def Let_def pad2_def pad3_def pad4_def pad6_def p d)
qed

lemma bind_text_nowIso: "bind_text (nowIso e) = nowIso e"
  unfolding nowIso_def by (rule bind_text_no_surrogate[OF no_surrogate_toISOString])

subsection \<open>Fresh identities and the read-back\<close>

lemma fold_max_lower: "a \<le> fold max xs (a::nat)"
  by (induction xs arbitrary: a) (auto intro: order_trans[OF max.cobounded2])

lemma fold_max_upper: "x \<in> set xs \<Longrightarrow> x \<le> fold max xs (a::nat)"
proof (induction xs arbitrary: a)
  case Nil
  then show ?case by simp
next
  case (Cons y ys)
  show ?case
  proof (cases "x = y")
    case True
    have "y \<le> max y a" by simp
    also have "\<dots> \<le> fold max ys (max y a)" by (rule fold_max_lower)
    finally show ?thesis using True by simp
  next
    case False
    with Cons show ?thesis by simp
  qed
qed

lemma next_rowid_above: "r \<in> set (rows d) \<Longrightarrow> note_id r < next_rowid d"
  unfolding next_rowid_def using fold_max_upper[of "note_id r" "map note_id (rows d)" "seq d"]
  by (simp add: less_Suc_eq_le)

lemma next_rowid_seq: "seq d < next_rowid d"
  unfolding next_rowid_def by (simp add: less_Suc_eq_le fold_max_lower)

lemma find_last_row:
  "\<forall>r\<in>set rs. \<not> P r \<Longrightarrow> P n \<Longrightarrow> find P (rs @ [n]) = Some n"
  by (induction rs) auto

lemma where_id_nat [simp]: "where_id (Finite (of_nat k)) r \<longleftrightarrow> note_id r = k"
  by simp

lemma post_notes_valid:
  assumes "\<not> not_text t" and "\<not> not_text c" and "run_err e = None" and "get_err e = None"
  shows "post_notes e t c d =
    (let n = \<lparr>note_id = next_rowid d, title = bind_text (trim (text_of t)),
               content = bind_text (trim (text_of c)), created_at = nowIso e\<rparr>
     in (Response 201 (NoteJson (Some n)),
         d\<lparr>rows := rows d @ [n], seq := next_rowid d, last_insert_rowid := next_rowid d\<rparr>))"
proof -
  let ?n = "\<lparr>note_id = next_rowid d, title = bind_text (trim (text_of t)),
               content = bind_text (trim (text_of c)), created_at = nowIso e\<rparr>"
  have "\<forall>r\<in>set (rows d). \<not> where_id (Finite (of_nat (next_rowid d))) r"
    using next_rowid_above[of _ d] by fastforce
  then have "find (where_id (Finite (of_nat (next_rowid d)))) (rows d @ [?n]) = Some ?n"
    by (rule find_last_row) simp
  with assms show ?thesis
    by (simp add: post_notes_def runAsync_def getAsync_def Let_def bind_text_nowIso)
qed

subsection \<open>The ordering of the list\<close>

lemma precedes_total: "precedes a b \<or> precedes b a"
  unfolding precedes_def by auto

lemma precedes_trans: "precedes a b \<Longrightarrow> precedes b c \<Longrightarrow> precedes a c"
  unfolding precedes_def by auto

lemma mset_place: "mset (place r rs) = add_mset r (mset rs)"
  by (induction rs) auto

lemma set_place: "set (place r rs) = insert r (set rs)"
  by (induction rs) auto

lemma sorted_place: "sorted_wrt precedes rs \<Longrightarrow> sorted_wrt precedes (place r rs)"
proof (induction rs)
  case Nil
  then show ?case by simp
next
  case (Cons x xs)
  show ?case
  proof (cases "precedes r x")
    case True
    with Cons.prems show ?thesis by (auto intro: precedes_trans)
  next
    case False
    then have "precedes x r" using precedes_total by blast
    with Cons False show ?thesis by (auto simp: set_place)
  qed
qed

lemma mset_order_by: "mset (order_by rs) = mset rs"
  unfolding order_by_def by (induction rs) (simp_all add: mset_place)

lemma sorted_order_by: "sorted_wrt precedes (order_by rs)"
  unfolding order_by_def by (induction rs) (simp_all add: sorted_place)

lemma set_order_by: "set (order_by rs) = set rs"
  by (metis mset_order_by set_mset_mset)

lemma precedes_refl: "precedes a a"
  by (simp add: precedes_def)

lemma listed_before:
  assumes "sorted_wrt precedes ns" and "a \<in> set ns" and "b \<in> set ns" and "\<not> precedes a b"
  shows "\<exists>xs ys zs. ns = xs @ b # ys @ a # zs"
proof -
  from assms(3) obtain xs rest where ns: "ns = xs @ b # rest"
    by (auto dest: split_list)
  have "a \<noteq> b" using assms(4) precedes_refl by auto
  have "a \<notin> set xs"
  proof
    assume "a \<in> set xs"
    with assms(1) ns have "precedes a b" by (simp add: sorted_wrt_append)
    with assms(4) show False by simp
  qed
  with assms(2) ns \<open>a \<noteq> b\<close> have "a \<in> set rest" by simp
  then obtain ys zs where "rest = ys @ a # zs" by (auto dest: split_list)
  with ns show ?thesis by blast
qed

subsection \<open>Identities and request values\<close>

lemma isInteger_of_nat: "isInteger (Finite (of_nat k))"
  by simp

lemma le_zero_of_nat: "le_zero (Finite (of_nat k)) \<longleftrightarrow> k = 0"
  by simp

lemma positive_integer_iff:
  "isInteger i \<and> \<not> le_zero i \<longleftrightarrow> (\<exists>k::nat. 0 < k \<and> i = Finite (of_nat k))"
proof
  assume a: "isInteger i \<and> \<not> le_zero i"
  then obtain q where i: "i = Finite q" by (cases i) simp_all
  from a i have pos: "0 < q" by simp
  from a i have ab: "of_int \<lfloor>\<bar>q\<bar>\<rfloor> = \<bar>q\<bar>" by (simp only: isInteger.simps)
  from pos have "\<bar>q\<bar> = q" by simp
  with ab have fl: "of_int \<lfloor>q\<rfloor> = q" by (simp only:)
  from pos fl have "(0::rat) < of_int \<lfloor>q\<rfloor>" by (simp only:)
  then have "0 < \<lfloor>q\<rfloor>" by (simp only: of_int_0_less_iff)
  then have "(of_nat (nat \<lfloor>q\<rfloor>) :: rat) = of_int \<lfloor>q\<rfloor>" by simp
  with fl have "of_nat (nat \<lfloor>q\<rfloor>) = q" by (simp only:)
  moreover have "0 < nat \<lfloor>q\<rfloor>" using \<open>0 < \<lfloor>q\<rfloor>\<close> by simp
  ultimately have "0 < nat \<lfloor>q\<rfloor> \<and> i = Finite (of_nat (nat \<lfloor>q\<rfloor>))"
    using i by (simp only: simp_thms)
  then show "\<exists>k::nat. 0 < k \<and> i = Finite (of_nat k)" by (rule exI)
next
  assume "\<exists>k::nat. 0 < k \<and> i = Finite (of_nat k)"
  then obtain k :: nat where k: "0 < k" "i = Finite (of_nat k)" by (elim exE conjE)
  have "isInteger i" unfolding k(2) by (rule isInteger_of_nat)
  moreover have "\<not> le_zero i" unfolding k(2) le_zero_of_nat using k(1) by simp
  ultimately show "isInteger i \<and> \<not> le_zero i" by (rule conjI)
qed

lemma not_text_non_string: "(\<nexists>s. v = JString s) \<Longrightarrow> not_text v"
  by (cases v) (simp_all add: not_text_def)

subsection \<open>What each handler does to the store\<close>

lemma stored_text_ok_trim: "\<not> not_text v \<Longrightarrow> stored_text_ok (bind_text (trim (text_of v)))"
  by (rule stored_text_ok_bind_text) (simp add: not_text_def stored_text_ok_def trim_idem)

lemma table_ok_iff:
  "table_ok d \<longleftrightarrow> (\<forall>r\<in>set (rows d). stored_text_ok (title r) \<and> stored_text_ok (content r))"
  by (simp add: table_ok_def list_all_iff)

lemma post_notes_store:
  "snd (post_notes e t c d) = d \<or>
   (\<not> not_text t \<and> \<not> not_text c \<and>
    snd (post_notes e t c d) =
      d\<lparr>rows := rows d @ [\<lparr>note_id = next_rowid d, title = bind_text (trim (text_of t)),
                              content = bind_text (trim (text_of c)), created_at = nowIso e\<rparr>],
        seq := next_rowid d, last_insert_rowid := next_rowid d\<rparr>)"
  by (simp add: post_notes_def runAsync_def getAsync_def Let_def bind_text_nowIso
      split: option.split)

lemma put_note_store:
  "snd (put_note e i t c d) = d \<or>
   ((t = JUndefined \<or> \<not> not_text t) \<and> (c = JUndefined \<or> \<not> not_text c) \<and>
    isInteger i \<and> \<not> le_zero i \<and>
    snd (put_note e i t c d) =
      d\<lparr>rows := map (\<lambda>r. if where_id i r then updated_row t c r else r) (rows d)\<rparr>)"
  by (simp add: put_note_def runAsync_def getAsync_def Let_def updated_row_def split: option.split)

lemma delete_note_store:
  "snd (delete_note e i d) = d \<or>
   snd (delete_note e i d) = d\<lparr>rows := filter (\<lambda>r. \<not> where_id i r) (rows d)\<rparr>"
  by (simp add: delete_note_def runAsync_def split: option.split)

lemma get_notes_store: "snd (get_notes e d) = d"
  by (simp add: get_notes_def allAsync_def split: option.split)

lemma table_ok_post_notes: "table_ok d \<Longrightarrow> table_ok (snd (post_notes e t c d))"
  using post_notes_store[of e t c d] by (auto simp: table_ok_iff stored_text_ok_trim)

lemma table_ok_put_note: "table_ok d \<Longrightarrow> table_ok (snd (put_note e i t c d))"
  using put_note_store[of e i t c d]
  by (auto simp: table_ok_iff stored_text_ok_trim updated_row_def)

lemma table_ok_delete_note: "table_ok d \<Longrightarrow> table_ok (snd (delete_note e i d))"
  using delete_note_store[of e i d] by (auto simp: table_ok_iff)

lemma table_ok_handle: "table_ok d \<Longrightarrow> table_ok (snd (handle rq d))"
  by (cases rq) (simp_all add: get_notes_store table_ok_post_notes table_ok_put_note
      table_ok_delete_note)

lemma table_ok_serve: "table_ok d \<Longrightarrow> table_ok (serve rqs d)"
  by (induction rqs arbitrary: d) (simp_all add: table_ok_handle)

lemma put_note_ok:
  assumes "put_note e i t c d = (Response 200 b, d')"
  shows "d' = d\<lparr>rows := map (\<lambda>r. if where_id i r then updated_row t c r else r) (rows d)\<rparr> \<and>
         b = NoteJson (find (where_id i) (rows d'))"
  using assms
  by (auto simp: put_note_def runAsync_def getAsync_def Let_def updated_row_def
      split: if_split_asm option.split_asm)

lemma post_notes_created:
  assumes "post_notes e t c d = (Response 201 b, d')"
  shows "\<not> not_text t \<and> \<not> not_text c \<and> run_err e = None \<and> get_err e = None"
  using assms
  by (auto simp: post_notes_def runAsync_def getAsync_def Let_def
      split: if_split_asm option.split_asm)

lemma no_match_filter:
  "k \<notin> note_id ` set rs \<Longrightarrow> filter (where_id (Finite (of_nat k))) rs = []"
  by (induction rs) auto

lemma no_match_keep:
  "k \<notin> note_id ` set rs \<Longrightarrow> filter (\<lambda>r. note_id r \<noteq> k) rs = rs"
  by (induction rs) auto

lemma no_match_map:
  "k \<notin> note_id ` set rs \<Longrightarrow>
   map (\<lambda>r. if note_id r = k then f r else r) rs = rs"
  by (induction rs) auto

lemma delete_note_absent:
  assumes "0 < k" and "k \<notin> note_id ` set (rows d)" and "run_err e = None"
  shows "delete_note e (Finite (of_nat k)) d = (Response 404 (ErrorJson ''note not found''), d)"
  using assms
  by (simp add: delete_note_def runAsync_def no_match_filter no_match_keep)

lemma put_note_absent:
  assumes "0 < k" and "k \<notin> note_id ` set (rows d)" and "run_err e = None"
    and "t \<noteq> JUndefined \<or> c \<noteq> JUndefined"
    and "t = JUndefined \<or> \<not> not_text t" and "c = JUndefined \<or> \<not> not_text c"
  shows "put_note e (Finite (of_nat k)) t c d = (Response 404 (ErrorJson ''note not found''), d)"
  using assms
  by (auto simp: put_note_def runAsync_def no_match_filter no_match_map Let_def)

lemma delete_note_ok:
  assumes "fst (delete_note e i d) = Response 200 b"
  shows "snd (delete_note e i d) = d\<lparr>rows := filter (\<lambda>r. \<not> where_id i r) (rows d)\<rparr> \<and>
         isInteger i \<and> \<not> le_zero i"
  using assms
  by (auto simp: delete_note_def runAsync_def split: if_split_asm option.split_asm)

lemma delete_note_twice:
  assumes "fst (delete_note e i d) = Response 200 b" and "run_err e2 = None"
  shows "delete_note e2 i (snd (delete_note e i d)) =
           (Response 404 (ErrorJson ''note not found''), snd (delete_note e i d))"
proof -
  from delete_note_ok[OF assms(1)]
  have d': "snd (delete_note e i d) = d\<lparr>rows := filter (\<lambda>r. \<not> where_id i r) (rows d)\<rparr>"
    and i: "isInteger i" "\<not> le_zero i" by simp_all
  have "filter (where_id i) (filter (\<lambda>r. \<not> where_id i r) (rows d)) = []"
    by (induction "rows d") (auto simp: filter_empty_conv)
  moreover have "filter (\<lambda>r. \<not> where_id i r) (filter (\<lambda>r. \<not> where_id i r) (rows d)) =
      filter (\<lambda>r. \<not> where_id i r) (rows d)"
    by simp
  ultimately show ?thesis
    unfolding d' using i assms(2) by (simp add: delete_note_def runAsync_def)
qed

subsection \<open>What outlives later requests\<close>

lemma where_id_iff: "where_id i r \<longleftrightarrow> i = Finite (of_nat (note_id r))"
  by (cases i) auto

lemma pinned_iff:
  "pinned k ts d \<longleftrightarrow>
     k \<le> seq d \<and> (\<forall>r\<in>set (rows d). note_id r = k \<longrightarrow> created_at r = ts)"
  by (simp add: pinned_def list_all_iff)

lemma pinned_post_notes: "pinned k ts d \<Longrightarrow> pinned k ts (snd (post_notes e t c d))"
  using post_notes_store[of e t c d] next_rowid_seq[of d] by (auto simp: pinned_iff)

lemma pinned_put_note: "pinned k ts d \<Longrightarrow> pinned k ts (snd (put_note e i t c d))"
  using put_note_store[of e i t c d] by (auto simp: pinned_iff updated_row_def)

lemma pinned_delete_note: "pinned k ts d \<Longrightarrow> pinned k ts (snd (delete_note e i d))"
  using delete_note_store[of e i d] by (auto simp: pinned_iff)

lemma pinned_handle: "pinned k ts d \<Longrightarrow> pinned k ts (snd (handle rq d))"
  by (cases rq) (simp_all add: get_notes_store pinned_post_notes pinned_put_note
      pinned_delete_note)

lemma pinned_serve: "pinned k ts d \<Longrightarrow> pinned k ts (serve rqs d)"
  by (induction rqs arbitrary: d) (simp_all add: pinned_handle)

lemma present_post_notes:
  "k \<in> note_id ` set (rows d) \<Longrightarrow> k \<in> note_id ` set (rows (snd (post_notes e t c d)))"
  using post_notes_store[of e t c d] by auto

lemma present_put_note:
  "k \<in> note_id ` set (rows d) \<Longrightarrow> k \<in> note_id ` set (rows (snd (put_note e i t c d)))"
proof -
  assume k: "k \<in> note_id ` set (rows d)"
  have "map note_id (map (\<lambda>r. if where_id i r then updated_row t c r else r) rs) =
        map note_id rs" for rs
    by (induction rs) (simp_all add: updated_row_def)
  then have "set (map note_id (map (\<lambda>r. if where_id i r then updated_row t c r else r) (rows d))) =
        set (map note_id (rows d))" by simp
  then have "note_id ` set (map (\<lambda>r. if where_id i r then updated_row t c r else r) (rows d)) =
        note_id ` set (rows d)" by (simp only: set_map)
  with k put_note_store[of e i t c d] show ?thesis by auto
qed

lemma present_delete_note:
  assumes "k \<in> note_id ` set (rows d)" and "i \<noteq> Finite (of_nat k)"
  shows "k \<in> note_id ` set (rows (snd (delete_note e i d)))"
proof -
  from assms(1) obtain r where r: "r \<in> set (rows d)" "note_id r = k" by auto
  with assms(2) have "\<not> where_id i r" by (simp add: where_id_iff)
  with r have "k \<in> note_id ` set (filter (\<lambda>r. \<not> where_id i r) (rows d))" by force
  with assms(1) delete_note_store[of e i d] show ?thesis by auto
qed

lemma present_handle:
  assumes "k \<in> note_id ` set (rows d)" and "\<forall>e. rq \<noteq> Delete e (Finite (of_nat k))"
  shows "k \<in> note_id ` set (rows (snd (handle rq d)))"
  using assms
  by (cases rq) (simp_all add: get_notes_store present_post_notes present_put_note
      present_delete_note)

lemma present_serve:
  assumes "k \<in> note_id ` set (rows d)" and "\<forall>e. Delete e (Finite (of_nat k)) \<notin> set rqs"
  shows "k \<in> note_id ` set (rows (serve rqs d))"
  using assms
proof (induction rqs arbitrary: d)
  case Nil
  then show ?case by simp
next
  case (Cons rq rqs)
  from Cons.prems have "\<forall>e. rq \<noteq> Delete e (Finite (of_nat k))" by auto
  with Cons.prems(1) have "k \<in> note_id ` set (rows (snd (handle rq d)))"
    by (rule present_handle)
  moreover from Cons.prems(2) have "\<forall>e. Delete e (Finite (of_nat k)) \<notin> set rqs" by auto
  ultimately show ?case using Cons.IH by simp
qed

lemma post_notes_row:
  assumes "post_notes e t c d = (Response 201 (NoteJson (Some n)), d')"
  shows "n = \<lparr>note_id = next_rowid d, title = bind_text (trim (text_of t)),
               content = bind_text (trim (text_of c)), created_at = nowIso e\<rparr> \<and>
         d' = d\<lparr>rows := rows d @ [n], seq := next_rowid d, last_insert_rowid := next_rowid d\<rparr>"
proof -
  from post_notes_created[OF assms]
  have v: "\<not> not_text t" "\<not> not_text c" "run_err e = None" "get_err e = None" by simp_all
  from assms post_notes_valid[OF v, of d] show ?thesis by (auto simp: Let_def)
qed

lemma pinned_after_create:
  assumes "post_notes e t c d = (Response 201 (NoteJson (Some n)), d')"
  shows "pinned (note_id n) (created_at n) d' \<and> note_id n \<in> note_id ` set (rows d') \<and>
         seq d < note_id n"
proof -
  from post_notes_row[OF assms]
  have n: "note_id n = next_rowid d" and d': "rows d' = rows d @ [n]" "seq d' = next_rowid d"
    by auto
  have "\<forall>r\<in>set (rows d). note_id r \<noteq> note_id n"
    using next_rowid_above[of _ d] n by fastforce
  then show ?thesis using n d' next_rowid_seq[of d] by (auto simp: pinned_iff)
qed

lemma sorted_positions:
  assumes "sorted_wrt precedes ns" and "i < length ns" and "j < length ns"
    and "\<not> precedes (ns ! j) (ns ! i)" and "ns ! i \<noteq> ns ! j"
  shows "i < j"
proof (rule ccontr)
  assume "\<not> i < j"
  with assms(5) have "j < i" by (cases "i = j") auto
  with assms(1,2) have "precedes (ns ! j) (ns ! i)" by (simp add: sorted_wrt_iff_nth_less)
  with assms(4) show False by simp
qed

text \<open>The equations that evaluate \<^verbatim>\<open>toISOString\<close> at a given time value.\<close>

lemmas date_defs = toISOString_def YearFromTime_def Day_def msPerDay_def DayFromYear_def
  pad4_def pad6_def pad2_def pad3_def digit_def MonthFromTime_def DateFromTime_def
  DayWithinYear_def InLeapYear_def DaysInYear_def HourFromTime_def MinFromTime_def
  SecFromTime_def msFromTime_def

section \<open>The claims\<close>

text \<open>
  C1, as the code has it. A create request whose title and content are strings that are
  not empty after trimming succeeds when the engine executes its two statements: the
  response is 201 with the stored row, and exactly one row is appended to the table. Its
  title and content are the trimmed inputs as the table's UTF-8 text keeps them, that is
  with every unpaired surrogate replaced by U+FFFD, and so the trimmed inputs themselves
  when these are well-formed UTF-16. Its \<^verbatim>\<open>created_at\<close> is the one value \<^verbatim>\<open>nowIso()\<close> returned,
  which has the form of an ISO 8601 date-time in UTC. Its identity is positive and larger
  than every identity the table holds or ever held.
\<close>

theorem create_valid_note:
  assumes "trim t \<noteq> []" and "trim c \<noteq> []" and "run_err e = None" and "get_err e = None"
  shows "\<exists>n. post_notes e (JString t) (JString c) d =
           (Response 201 (NoteJson (Some n)),
            d\<lparr>rows := rows d @ [n], seq := note_id n, last_insert_rowid := note_id n\<rparr>) \<and>
         title n = bind_text (trim t) \<and> content n = bind_text (trim c) \<and>
         (well_formed_utf16 (trim t) \<longrightarrow> title n = trim t) \<and>
         (well_formed_utf16 (trim c) \<longrightarrow> content n = trim c) \<and>
         created_at n = nowIso e \<and> iso_8601_utc (created_at n) \<and>
         0 < note_id n \<and> seq d < note_id n \<and> (\<forall>r\<in>set (rows d). note_id r < note_id n)"
proof -
  have "\<not> not_text (JString t)" and "\<not> not_text (JString c)"
    using assms by (simp_all add: not_text_def)
  from post_notes_valid[OF this assms(3,4), of d] show ?thesis
    using next_rowid_seq[of d] next_rowid_above[of _ d]
    by (auto simp: Let_def bind_text_well_formed nowIso_def iso_8601_utc_toISOString)
qed

theorem create_valid_note_witness:
  "trim [0x20, 0x61] \<noteq> [] \<and> trim [0x62, 0x0A] \<noteq> [] \<and>
   post_notes (engine_ok 1768826096789) (JString [0x20, 0x61]) (JString [0x62, 0x0A]) init_db =
     (Response 201 (NoteJson (Some
        \<lparr>note_id = 1, title = [0x61], content = [0x62],
          created_at = [0x32, 0x30, 0x32, 0x36, 0x2D, 0x30, 0x31, 0x2D, 0x31, 0x39, 0x54, 0x31, 0x32,
                        0x3A, 0x33, 0x34, 0x3A, 0x35, 0x36, 0x2E, 0x37, 0x38, 0x39, 0x5A]\<rparr>)),
      \<lparr>rows = [\<lparr>note_id = 1, title = [0x61], content = [0x62],
          created_at = [0x32, 0x30, 0x32, 0x36, 0x2D, 0x30, 0x31, 0x2D, 0x31, 0x39, 0x54, 0x31, 0x32,
                        0x3A, 0x33, 0x34, 0x3A, 0x35, 0x36, 0x2E, 0x37, 0x38, 0x39, 0x5A]\<rparr>],
        seq = 1, last_insert_rowid = 1\<rparr>) \<and>
   iso_8601_utc [0x32, 0x30, 0x32, 0x36, 0x2D, 0x30, 0x31, 0x2D, 0x31, 0x39, 0x54, 0x31, 0x32,
                 0x3A, 0x33, 0x34, 0x3A, 0x35, 0x36, 0x2E, 0x37, 0x38, 0x39, 0x5A]"
proof -
  have h: "trim [0x20, 0x61] \<noteq> []" "trim [0x62, 0x0A] \<noteq> []"
    "run_err (engine_ok 1768826096789) = None" "get_err (engine_ok 1768826096789) = None"
    by (simp_all add: trim_def is_white_space_def engine_ok_def)
  have ts: "nowIso (engine_ok 1768826096789) =
      [0x32, 0x30, 0x32, 0x36, 0x2D, 0x30, 0x31, 0x2D, 0x31, 0x39, 0x54, 0x31, 0x32,
       0x3A, 0x33, 0x34, 0x3A, 0x35, 0x36, 0x2E, 0x37, 0x38, 0x39, 0x5A]"
    by (simp add: nowIso_def engine_ok_def date_defs Let_def)
  from create_valid_note[OF h, of init_db] obtain n where
    n: "post_notes (engine_ok 1768826096789) (JString [0x20, 0x61]) (JString [0x62, 0x0A]) init_db =
          (Response 201 (NoteJson (Some n)),
           init_db\<lparr>rows := rows init_db @ [n], seq := note_id n, last_insert_rowid := note_id n\<rparr>)"
      "title n = bind_text (trim [0x20, 0x61])" "content n = bind_text (trim [0x62, 0x0A])"
      "created_at n = nowIso (engine_ok 1768826096789)" "iso_8601_utc (created_at n)"
      "0 < note_id n" "seq init_db < note_id n"
    by blast
  have "post_notes (engine_ok 1768826096789) (JString [0x20, 0x61]) (JString [0x62, 0x0A]) init_db =
     (Response 201 (NoteJson (Some
        \<lparr>note_id = 1, title = [0x61], content = [0x62],
          created_at = nowIso (engine_ok 1768826096789)\<rparr>)),
      \<lparr>rows = [\<lparr>note_id = 1, title = [0x61], content = [0x62],
          created_at = nowIso (engine_ok 1768826096789)\<rparr>],
        seq = 1, last_insert_rowid = 1\<rparr>)"
    by (simp add: post_notes_def not_text_def trim_def is_white_space_def engine_ok_def
        init_db_def runAsync_def getAsync_def next_rowid_def Let_def bind_text_nowIso
        is_surrogate_def is_high_surrogate_def is_low_surrogate_def)
  with h n(4,5) ts show ?thesis by (simp only: simp_thms)
qed

text \<open>
  C1 as it is written fails for a title with an unpaired surrogate: the title made of
  U+D800 and \<^verbatim>\<open>x\<close> is its own trim, and the row that is stored and returned has the title
  U+FFFD \<^verbatim>\<open>x\<close>.
\<close>

theorem create_valid_note_counterexample:
  "trim [0xD800, 0x78] \<noteq> [] \<and> trim [0x62] \<noteq> [] \<and>
   run_err (engine_ok 0) = None \<and> get_err (engine_ok 0) = None \<and>
   post_notes (engine_ok 0) (JString [0xD800, 0x78]) (JString [0x62]) init_db =
     (Response 201 (NoteJson (Some
        \<lparr>note_id = 1, title = [0xFFFD, 0x78], content = [0x62],
          created_at = nowIso (engine_ok 0)\<rparr>)),
      \<lparr>rows = [\<lparr>note_id = 1, title = [0xFFFD, 0x78], content = [0x62],
          created_at = nowIso (engine_ok 0)\<rparr>],
        seq = 1, last_insert_rowid = 1\<rparr>) \<and>
   [0xFFFD, 0x78] \<noteq> trim [0xD800, 0x78]"
  by (simp add: post_notes_def not_text_def trim_def is_white_space_def engine_ok_def
      init_db_def runAsync_def getAsync_def next_rowid_def Let_def bind_text_nowIso
      is_surrogate_def is_high_surrogate_def is_low_surrogate_def)

text \<open>
  C2. Listing never changes the store. When the engine executes the query, the response
  is 200 with all the rows of the table, each as often as the table holds it (no
  pagination), and of any two rows of the answer the later one has the smaller
  \<^verbatim>\<open>created_at\<close>, or the same \<^verbatim>\<open>created_at\<close> and an identity that is not larger.
\<close>

theorem list_all_notes:
  "snd (get_notes e d) = d \<and>
   (all_err e = None \<longrightarrow>
     (\<exists>ns. get_notes e d = (Response 200 (NotesJson ns), d) \<and>
           mset ns = mset (rows d) \<and>
           (\<forall>j < length ns. \<forall>i < j.
              created_at (ns ! j) < created_at (ns ! i) \<or>
              (created_at (ns ! i) = created_at (ns ! j) \<and> note_id (ns ! j) \<le> note_id (ns ! i)))))"
proof -
  have "snd (get_notes e d) = d"
    by (simp add: get_notes_def allAsync_def split: option.split)
  moreover have "\<forall>j < length (order_by (rows d)). \<forall>i < j.
      precedes (order_by (rows d) ! i) (order_by (rows d) ! j)"
    using sorted_order_by[of "rows d"] by (simp add: sorted_wrt_iff_nth_less)
  ultimately show ?thesis
    by (auto simp: get_notes_def allAsync_def mset_order_by precedes_def)
qed

theorem list_all_notes_witness:
  "get_notes (engine_ok 0) 
      \<lparr>rows = [\<lparr>note_id = 1, title = [0x61], content = [0x62], created_at = [0x31]\<rparr>,
               \<lparr>note_id = 2, title = [0x63], content = [0x64], created_at = [0x31]\<rparr>,
               \<lparr>note_id = 3, title = [0x65], content = [0x66], created_at = [0x30]\<rparr>],
        seq = 3, last_insert_rowid = 3\<rparr> =
    (Response 200 (NotesJson
              [\<lparr>note_id = 2, title = [0x63], content = [0x64], created_at = [0x31]\<rparr>,
               \<lparr>note_id = 1, title = [0x61], content = [0x62], created_at = [0x31]\<rparr>,
               \<lparr>note_id = 3, title = [0x65], content = [0x66], created_at = [0x30]\<rparr>]),
      \<lparr>rows = [\<lparr>note_id = 1, title = [0x61], content = [0x62], created_at = [0x31]\<rparr>,
               \<lparr>note_id = 2, title = [0x63], content = [0x64], created_at = [0x31]\<rparr>,
               \<lparr>note_id = 3, title = [0x65], content = [0x66], created_at = [0x30]\<rparr>],
        seq = 3, last_insert_rowid = 3\<rparr>)"
  using list_all_notes[of "engine_ok 0" "\<lparr>rows = [\<lparr>note_id = 1, title = [0x61], content = [0x62], created_at = [0x31]\<rparr>,
               \<lparr>note_id = 2, title = [0x63], content = [0x64], created_at = [0x31]\<rparr>,
               \<lparr>note_id = 3, title = [0x65], content = [0x66], created_at = [0x30]\<rparr>],
        seq = 3, last_insert_rowid = 3\<rparr>"]
  by (simp add: get_notes_def allAsync_def engine_ok_def order_by_def precedes_def)

text \<open>
  C3. In every store the service reaches from the empty table by any sequence of list,
  create, update and delete requests, whatever the engine reports for their statements,
  every stored title and content equals its own trim and has positive length; and every
  single request preserves this property of the table.
\<close>

theorem stored_text_invariant:
  "table_ok (serve rqs init_db) \<and> (table_ok d \<longrightarrow> table_ok (snd (handle rq d)))"
proof -
  have "table_ok init_db" by (simp add: table_ok_def init_db_def)
  then show ?thesis by (simp add: table_ok_serve table_ok_handle)
qed

theorem stored_text_invariant_witness:
  "serve [Create (engine_ok 0) (JString [0x20, 0x61]) (JString [0x62, 0x20]),
          Create (engine_ok 0) (JString [0x20]) (JString [0x62]),
          Update (engine_ok 0) (Finite 1) (JString [0x09, 0x63]) JUndefined,
          Update (engine_ok 0) (Finite 1) JUndefined (JString [0x20])] init_db =
     \<lparr>rows = [\<lparr>note_id = 1, title = [0x63], content = [0x62], created_at = nowIso (engine_ok 0)\<rparr>],
       seq = 1, last_insert_rowid = 1\<rparr> \<and>
   table_ok \<lparr>rows = [\<lparr>note_id = 1, title = [0x63], content = [0x62], created_at = nowIso (engine_ok 0)\<rparr>],
       seq = 1, last_insert_rowid = 1\<rparr> \<and>
   table_ok (snd (handle (Update (engine_ok 0) (Finite 1) JUndefined (JString [0x64, 0x0A]))
       \<lparr>rows = [\<lparr>note_id = 1, title = [0x63], content = [0x62], created_at = nowIso (engine_ok 0)\<rparr>],
         seq = 1, last_insert_rowid = 1\<rparr>))"
proof -
  have run: "serve [Create (engine_ok 0) (JString [0x20, 0x61]) (JString [0x62, 0x20]),
          Create (engine_ok 0) (JString [0x20]) (JString [0x62]),
          Update (engine_ok 0) (Finite 1) (JString [0x09, 0x63]) JUndefined,
          Update (engine_ok 0) (Finite 1) JUndefined (JString [0x20])] init_db =
     \<lparr>rows = [\<lparr>note_id = 1, title = [0x63], content = [0x62], created_at = nowIso (engine_ok 0)\<rparr>],
       seq = 1, last_insert_rowid = 1\<rparr>"
    by (simp add: post_notes_def put_note_def not_text_def trim_def is_white_space_def
        engine_ok_def init_db_def runAsync_def getAsync_def next_rowid_def Let_def
        bind_text_nowIso is_surrogate_def is_high_surrogate_def is_low_surrogate_def)
  from stored_text_invariant[of "[Create (engine_ok 0) (JString [0x20, 0x61]) (JString [0x62, 0x20]),
          Create (engine_ok 0) (JString [0x20]) (JString [0x62]),
          Update (engine_ok 0) (Finite 1) (JString [0x09, 0x63]) JUndefined,
          Update (engine_ok 0) (Finite 1) JUndefined (JString [0x20])]"
      "\<lparr>rows = [\<lparr>note_id = 1, title = [0x63], content = [0x62], created_at = nowIso (engine_ok 0)\<rparr>],
         seq = 1, last_insert_rowid = 1\<rparr>"
      "Update (engine_ok 0) (Finite 1) JUndefined (JString [0x64, 0x0A])"]
  show ?thesis unfolding run by (simp only: simp_thms)
qed

text \<open>
  C4. A create request whose title or content is a string that trims to the empty string
  is answered 400 and leaves the store unchanged. The message names an offending field:
  \<^verbatim>\<open>title is required\<close> when the title is blank, \<^verbatim>\<open>content is required\<close> when the title is
  a proper text and the content is blank, and one of the two whatever the title is.
\<close>

theorem create_blank_rejected:
  "(trim t = [] \<longrightarrow>
      post_notes e (JString t) c' d = (Response 400 (ErrorJson ''title is required''), d)) \<and>
   (trim c = [] \<and> trim t \<noteq> [] \<longrightarrow>
      post_notes e (JString t) (JString c) d =
        (Response 400 (ErrorJson ''content is required''), d)) \<and>
   (trim c = [] \<longrightarrow>
      post_notes e t' (JString c) d = (Response 400 (ErrorJson ''title is required''), d) \<or>
      post_notes e t' (JString c) d = (Response 400 (ErrorJson ''content is required''), d))"
  by (simp add: post_notes_def not_text_def)

theorem create_blank_rejected_witness:
  "trim [0x20, 0x20] = [] \<and> trim [0x61] \<noteq> [] \<and>
   post_notes (engine_ok 0) (JString [0x20, 0x20]) (JString [0x62]) init_db =
     (Response 400 (ErrorJson ''title is required''), init_db) \<and>
   post_notes (engine_ok 0) (JString [0x61]) (JString [0x20, 0x20]) init_db =
     (Response 400 (ErrorJson ''content is required''), init_db)"
proof -
  have h: "trim [0x20, 0x20] = []" "trim [0x61] \<noteq> []"
    by (simp_all add: trim_def is_white_space_def)
  from h create_blank_rejected[of "[0x20, 0x20]" "engine_ok 0" "JString [0x62]" init_db]
    create_blank_rejected[of "[0x61]" "engine_ok 0" _ init_db "[0x20, 0x20]"]
  show ?thesis by (simp only: simp_thms)
qed

text \<open>
  C5. An update that is answered 200 changes nothing but the supplied fields of the rows
  with the requested identity: the table keeps its length and its identity counter, every
  row keeps its identity and its \<^verbatim>\<open>created_at\<close>, a title or content that the body omits
  keeps its stored value, rows with another identity are unchanged, and a supplied field
  of the target becomes the trimmed input as the table's UTF-8 text keeps it.
\<close>

theorem update_frame:
  assumes "put_note e i t' c' d = (Response 200 b, d')"
  shows "seq d' = seq d \<and> length (rows d') = length (rows d) \<and>
    (\<forall>j<length (rows d).
       note_id (rows d' ! j) = note_id (rows d ! j) \<and>
       created_at (rows d' ! j) = created_at (rows d ! j) \<and>
       (t' = JUndefined \<longrightarrow> title (rows d' ! j) = title (rows d ! j)) \<and>
       (c' = JUndefined \<longrightarrow> content (rows d' ! j) = content (rows d ! j)) \<and>
       (i \<noteq> Finite (of_nat (note_id (rows d ! j))) \<longrightarrow> rows d' ! j = rows d ! j) \<and>
       (i = Finite (of_nat (note_id (rows d ! j))) \<longrightarrow>
          (t' \<noteq> JUndefined \<longrightarrow> title (rows d' ! j) = bind_text (trim (text_of t'))) \<and>
          (c' \<noteq> JUndefined \<longrightarrow> content (rows d' ! j) = bind_text (trim (text_of c')))))"
proof -
  from put_note_ok[OF assms]
  have d': "d' = d\<lparr>rows := map (\<lambda>r. if where_id i r then updated_row t' c' r else r) (rows d)\<rparr>"
    by simp
  show ?thesis unfolding d' by (simp add: where_id_iff updated_row_def)
qed

theorem update_frame_witness:
  "put_note (engine_ok 0) (Finite 1) JUndefined (JString [0x20, 0x79, 0xDC00, 0x20])
      \<lparr>rows = [\<lparr>note_id = 1, title = [0x61], content = [0x62], created_at = [0x31]\<rparr>,
               \<lparr>note_id = 2, title = [0x63], content = [0x64], created_at = [0x32]\<rparr>],
        seq = 2, last_insert_rowid = 2\<rparr> =
     (Response 200 (NoteJson (Some \<lparr>note_id = 1, title = [0x61], content = [0x79, 0xFFFD], created_at = [0x31]\<rparr>)),
      \<lparr>rows = [\<lparr>note_id = 1, title = [0x61], content = [0x79, 0xFFFD], created_at = [0x31]\<rparr>,
               \<lparr>note_id = 2, title = [0x63], content = [0x64], created_at = [0x32]\<rparr>],
        seq = 2, last_insert_rowid = 2\<rparr>) \<and>
   title (rows \<lparr>rows = [\<lparr>note_id = 1, title = [0x61], content = [0x79, 0xFFFD], created_at = [0x31]\<rparr>,
               \<lparr>note_id = 2, title = [0x63], content = [0x64], created_at = [0x32]\<rparr>],
        seq = 2, last_insert_rowid = 2\<rparr> ! 0) = [0x61]"
proof -
  have run: "put_note (engine_ok 0) (Finite 1) JUndefined (JString [0x20, 0x79, 0xDC00, 0x20])
      \<lparr>rows = [\<lparr>note_id = 1, title = [0x61], content = [0x62], created_at = [0x31]\<rparr>,
               \<lparr>note_id = 2, title = [0x63], content = [0x64], created_at = [0x32]\<rparr>],
        seq = 2, last_insert_rowid = 2\<rparr> =
     (Response 200 (NoteJson (Some \<lparr>note_id = 1, title = [0x61], content = [0x79, 0xFFFD], created_at = [0x31]\<rparr>)),
      \<lparr>rows = [\<lparr>note_id = 1, title = [0x61], content = [0x79, 0xFFFD], created_at = [0x31]\<rparr>,
               \<lparr>note_id = 2, title = [0x63], content = [0x64], created_at = [0x32]\<rparr>],
        seq = 2, last_insert_rowid = 2\<rparr>)"
    by (simp add: put_note_def not_text_def trim_def is_white_space_def engine_ok_def
        runAsync_def getAsync_def Let_def is_surrogate_def is_high_surrogate_def
        is_low_surrogate_def)
  from update_frame[OF run] have "title (rows \<lparr>rows = [\<lparr>note_id = 1, title = [0x61], content = [0x79, 0xFFFD], created_at = [0x31]\<rparr>,
               \<lparr>note_id = 2, title = [0x63], content = [0x64], created_at = [0x32]\<rparr>],
        seq = 2, last_insert_rowid = 2\<rparr> ! 0) = [0x61]"
    by simp
  with run show ?thesis by (simp only: simp_thms)
qed

text \<open>
  C6. An update request that supplies neither title nor content is answered 400 and leaves
  the store unchanged, whatever the identity is and whether or not a row has it: the
  message is \<^verbatim>\<open>nothing to update\<close> when the identity is a positive integer and
  \<^verbatim>\<open>invalid id\<close> otherwise.
\<close>

theorem update_nothing_rejected:
  "put_note e i JUndefined JUndefined d =
     (Response 400 (ErrorJson (if \<exists>k::nat. 0 < k \<and> i = Finite (of_nat k)
                               then ''nothing to update'' else ''invalid id'')), d)"
  unfolding positive_integer_iff[symmetric] by (simp add: put_note_def)

theorem update_nothing_rejected_witness:
  "put_note (engine_ok 0) (Finite (of_nat 1)) JUndefined JUndefined
      \<lparr>rows = [\<lparr>note_id = 1, title = [0x61], content = [0x62], created_at = [0x31]\<rparr>],
        seq = 1, last_insert_rowid = 1\<rparr> =
     (Response 400 (ErrorJson ''nothing to update''),
      \<lparr>rows = [\<lparr>note_id = 1, title = [0x61], content = [0x62], created_at = [0x31]\<rparr>],
        seq = 1, last_insert_rowid = 1\<rparr>) \<and>
   put_note (engine_ok 0) (Finite 0) JUndefined JUndefined init_db =
     (Response 400 (ErrorJson ''invalid id''), init_db)"
proof -
  have y: "\<exists>k::nat. 0 < k \<and> Finite (of_nat 1) = Finite (of_nat k)"
    by (rule exI[of _ 1]) simp
  have "\<not> (isInteger (Finite 0) \<and> \<not> le_zero (Finite 0))" by simp
  then have n: "\<not> (\<exists>k::nat. 0 < k \<and> Finite 0 = Finite (of_nat k))"
    unfolding positive_integer_iff .
  from update_nothing_rejected[of "engine_ok 0" "Finite (of_nat 1)"
      "\<lparr>rows = [\<lparr>note_id = 1, title = [0x61], content = [0x62], created_at = [0x31]\<rparr>],
        seq = 1, last_insert_rowid = 1\<rparr>"]
    update_nothing_rejected[of "engine_ok 0" "Finite 0" init_db] y n
  show ?thesis by (simp only: if_True if_False simp_thms)
qed

text \<open>
  C7, as the code has it. A delete request, and an update request whose body passes
  validation (it supplies a title or a content, and each supplied one is a string that is
  not empty after trimming), with a positive integer identity that no stored row has, is
  answered 404 \<^verbatim>\<open>note not found\<close> with the store unchanged, when the engine executes the
  statement. A delete of the identity of a delete that was answered 200 is answered 404.
\<close>

theorem absent_identity_not_found:
  "(0 < k \<and> k \<notin> note_id ` set (rows d) \<and> run_err e = None \<longrightarrow>
      delete_note e (Finite (of_nat k)) d = (Response 404 (ErrorJson ''note not found''), d) \<and>
      ((t' \<noteq> JUndefined \<or> c' \<noteq> JUndefined) \<and>
       (t' = JUndefined \<or> (\<exists>s. t' = JString s \<and> trim s \<noteq> [])) \<and>
       (c' = JUndefined \<or> (\<exists>s. c' = JString s \<and> trim s \<noteq> [])) \<longrightarrow>
       put_note e (Finite (of_nat k)) t' c' d = (Response 404 (ErrorJson ''note not found''), d))) \<and>
   (fst (delete_note e i d) = Response 200 (DeletedJson True) \<and> run_err e2 = None \<longrightarrow>
      delete_note e2 i (snd (delete_note e i d)) =
        (Response 404 (ErrorJson ''note not found''), snd (delete_note e i d)))"
proof (intro conjI impI)
  assume a: "0 < k \<and> k \<notin> note_id ` set (rows d) \<and> run_err e = None"
  then show "delete_note e (Finite (of_nat k)) d = (Response 404 (ErrorJson ''note not found''), d)"
    by (simp add: delete_note_absent)
  assume b: "(t' \<noteq> JUndefined \<or> c' \<noteq> JUndefined) \<and>
       (t' = JUndefined \<or> (\<exists>s. t' = JString s \<and> trim s \<noteq> [])) \<and>
       (c' = JUndefined \<or> (\<exists>s. c' = JString s \<and> trim s \<noteq> []))"
  then have "t' = JUndefined \<or> \<not> not_text t'" and "c' = JUndefined \<or> \<not> not_text c'"
    by (auto simp: not_text_def)
  with a b show "put_note e (Finite (of_nat k)) t' c' d = (Response 404 (ErrorJson ''note not found''), d)"
    by (simp add: put_note_absent)
next
  assume "fst (delete_note e i d) = Response 200 (DeletedJson True) \<and> run_err e2 = None"
  then show "delete_note e2 i (snd (delete_note e i d)) =
        (Response 404 (ErrorJson ''note not found''), snd (delete_note e i d))"
    by (simp add: delete_note_twice)
qed

theorem absent_identity_not_found_witness:
  "(0::nat) < 2 \<and>
   2 \<notin> note_id ` set (rows \<lparr>rows = [\<lparr>note_id = 1, title = [0x61], content = [0x62], created_at = [0x31]\<rparr>],
        seq = 1, last_insert_rowid = 1\<rparr>) \<and>
   run_err (engine_ok 0) = None \<and>
   delete_note (engine_ok 0) (Finite (of_nat 2))
      \<lparr>rows = [\<lparr>note_id = 1, title = [0x61], content = [0x62], created_at = [0x31]\<rparr>],
        seq = 1, last_insert_rowid = 1\<rparr> =
     (Response 404 (ErrorJson ''note not found''),
      \<lparr>rows = [\<lparr>note_id = 1, title = [0x61], content = [0x62], created_at = [0x31]\<rparr>],
        seq = 1, last_insert_rowid = 1\<rparr>) \<and>
   put_note (engine_ok 0) (Finite (of_nat 2)) (JString [0x7A]) JUndefined
      \<lparr>rows = [\<lparr>note_id = 1, title = [0x61], content = [0x62], created_at = [0x31]\<rparr>],
        seq = 1, last_insert_rowid = 1\<rparr> =
     (Response 404 (ErrorJson ''note not found''),
      \<lparr>rows = [\<lparr>note_id = 1, title = [0x61], content = [0x62], created_at = [0x31]\<rparr>],
        seq = 1, last_insert_rowid = 1\<rparr>) \<and>
   delete_note (engine_ok 0) (Finite 1)
      \<lparr>rows = [\<lparr>note_id = 1, title = [0x61], content = [0x62], created_at = [0x31]\<rparr>],
        seq = 1, last_insert_rowid = 1\<rparr> =
     (Response 200 (DeletedJson True), \<lparr>rows = [], seq = 1, last_insert_rowid = 1\<rparr>) \<and>
   delete_note (engine_ok 0) (Finite 1) \<lparr>rows = [], seq = 1, last_insert_rowid = 1\<rparr> =
     (Response 404 (ErrorJson ''note not found''), \<lparr>rows = [], seq = 1, last_insert_rowid = 1\<rparr>)"
proof -
  have h: "(0::nat) < 2 \<and>
      2 \<notin> note_id ` set (rows \<lparr>rows = [\<lparr>note_id = 1, title = [0x61], content = [0x62], created_at = [0x31]\<rparr>],
        seq = 1, last_insert_rowid = 1\<rparr>) \<and>
      run_err (engine_ok 0) = None"
    by (simp add: engine_ok_def)
  have b: "(JString [0x7A] \<noteq> JUndefined \<or> JUndefined \<noteq> JUndefined) \<and>
      (JString [0x7A] = JUndefined \<or> (\<exists>s. JString [0x7A] = JString s \<and> trim s \<noteq> [])) \<and>
      (JUndefined = JUndefined \<or> (\<exists>s. JUndefined = JString s \<and> trim s \<noteq> []))"
    by (simp add: trim_def is_white_space_def)
  have del: "delete_note (engine_ok 0) (Finite 1)
      \<lparr>rows = [\<lparr>note_id = 1, title = [0x61], content = [0x62], created_at = [0x31]\<rparr>],
        seq = 1, last_insert_rowid = 1\<rparr> =
     (Response 200 (DeletedJson True), \<lparr>rows = [], seq = 1, last_insert_rowid = 1\<rparr>)"
    by (simp add: delete_note_def runAsync_def engine_ok_def)
  from absent_identity_not_found[of 2
      "\<lparr>rows = [\<lparr>note_id = 1, title = [0x61], content = [0x62], created_at = [0x31]\<rparr>],
        seq = 1, last_insert_rowid = 1\<rparr>"
      "engine_ok 0" "JString [0x7A]" JUndefined "Finite 1" "engine_ok 0"] h b del
  show ?thesis by (simp add: engine_ok_def)
qed

text \<open>
  C7 as it is written fails for updates: an update of the absent identity 99999 with the
  empty body is answered 400 \<^verbatim>\<open>nothing to update\<close>, not 404, since the body is validated
  before the table is consulted.
\<close>

theorem absent_identity_counterexample:
  "(0::nat) < 99999 \<and> 99999 \<notin> note_id ` set (rows init_db) \<and> run_err (engine_ok 0) = None \<and>
   put_note (engine_ok 0) (Finite (of_nat 99999)) JUndefined JUndefined init_db =
     (Response 400 (ErrorJson ''nothing to update''), init_db) \<and>
   put_note (engine_ok 0) (Finite (of_nat 99999)) JUndefined JUndefined init_db \<noteq>
     (Response 404 (ErrorJson ''note not found''), init_db)"
  by (simp add: put_note_def init_db_def engine_ok_def)

text \<open>
  C8. Let a create be answered 201 with the row N1 and, after any requests in between,
  a later create be answered 201 with the row N2, the clock string of the second being
  no smaller than that of the first. Then N2 has the larger identity, and after any
  further requests a list answers with every row that has N2's identity before every row
  that has N1's; when no request in between or after deletes either identity, both are
  in the answer.
\<close>

theorem later_note_listed_first:
  assumes "post_notes e1 t1 c1 d = (Response 201 (NoteJson (Some n1)), d1)"
    and "post_notes e2 t2 c2 (serve rqs1 d1) = (Response 201 (NoteJson (Some n2)), d2)"
    and "nowIso e1 \<le> nowIso e2"
    and "all_err e3 = None"
  shows "created_at n1 \<le> created_at n2 \<and> note_id n1 < note_id n2 \<and>
         (\<exists>ns. get_notes e3 (serve rqs2 d2) = (Response 200 (NotesJson ns), serve rqs2 d2) \<and>
           (\<forall>i<length ns. \<forall>j<length ns.
              note_id (ns ! i) = note_id n2 \<and> note_id (ns ! j) = note_id n1 \<longrightarrow> i < j) \<and>
           ((\<forall>e. Delete e (Finite (of_nat (note_id n1))) \<notin> set rqs1 \<union> set rqs2) \<and>
            (\<forall>e. Delete e (Finite (of_nat (note_id n2))) \<notin> set rqs2) \<longrightarrow>
              (\<exists>i j. i < j \<and> j < length ns \<and>
                     note_id (ns ! i) = note_id n2 \<and> note_id (ns ! j) = note_id n1)))"
proof -
  define d3 where "d3 = serve rqs2 d2"
  define ns where "ns = order_by (rows d3)"
  from post_notes_row[OF assms(1)] have ts1: "created_at n1 = nowIso e1" by auto
  from post_notes_row[OF assms(2)] have ts2: "created_at n2 = nowIso e2" by auto
  from ts1 ts2 assms(3) have ts: "created_at n1 \<le> created_at n2" by simp
  from pinned_after_create[OF assms(1)]
  have p1: "pinned (note_id n1) (created_at n1) d1"
    and in1: "note_id n1 \<in> note_id ` set (rows d1)" by simp_all
  from p1 have p1': "pinned (note_id n1) (created_at n1) (serve rqs1 d1)" by (rule pinned_serve)
  from pinned_after_create[OF assms(2)]
  have p2: "pinned (note_id n2) (created_at n2) d2"
    and in2: "note_id n2 \<in> note_id ` set (rows d2)"
    and s2: "seq (serve rqs1 d1) < note_id n2" by simp_all
  from p1' s2 have ids: "note_id n1 < note_id n2" by (simp add: pinned_iff)
  from pinned_post_notes[OF p1', of e2 t2 c2] assms(2)
  have "pinned (note_id n1) (created_at n1) d2" by simp
  then have q1: "pinned (note_id n1) (created_at n1) d3" unfolding d3_def by (rule pinned_serve)
  from p2 have q2: "pinned (note_id n2) (created_at n2) d3" unfolding d3_def by (rule pinned_serve)
  have set_ns: "set ns = set (rows d3)" unfolding ns_def by (rule set_order_by)
  have sorted: "sorted_wrt precedes ns" unfolding ns_def by (rule sorted_order_by)
  have order: "i < j"
    if "i < length ns" "j < length ns" "note_id (ns ! i) = note_id n2" "note_id (ns ! j) = note_id n1"
    for i j
  proof -
    from that(1,2) set_ns have "ns ! i \<in> set (rows d3)" "ns ! j \<in> set (rows d3)"
      using nth_mem by blast+
    with q1 q2 that(3,4) have c: "created_at (ns ! i) = created_at n2" "created_at (ns ! j) = created_at n1"
      by (auto simp: pinned_iff)
    from c that(3,4) ts ids have "\<not> precedes (ns ! j) (ns ! i)"
      by (auto simp: precedes_def)
    moreover from that(3,4) ids have "ns ! i \<noteq> ns ! j" by auto
    ultimately show ?thesis using sorted that(1,2) by (rule sorted_positions[rotated 3])
  qed
  have both: "\<exists>i j. i < j \<and> j < length ns \<and>
                     note_id (ns ! i) = note_id n2 \<and> note_id (ns ! j) = note_id n1"
    if nd1: "\<forall>e. Delete e (Finite (of_nat (note_id n1))) \<notin> set rqs1 \<union> set rqs2"
      and nd2: "\<forall>e. Delete e (Finite (of_nat (note_id n2))) \<notin> set rqs2"
  proof -
    from nd1 have a: "\<forall>e. Delete e (Finite (of_nat (note_id n1))) \<notin> set rqs1"
      and b: "\<forall>e. Delete e (Finite (of_nat (note_id n1))) \<notin> set rqs2" by auto
    from present_serve[OF in1 a]
    have "note_id n1 \<in> note_id ` set (rows (serve rqs1 d1))" .
    from present_post_notes[OF this, of e2 t2 c2] assms(2)
    have "note_id n1 \<in> note_id ` set (rows d2)" by simp
    from present_serve[OF this b] have "note_id n1 \<in> note_id ` set ns"
      unfolding d3_def[symmetric] set_ns .
    then obtain j where j: "j < length ns" "note_id (ns ! j) = note_id n1"
      by (auto simp: in_set_conv_nth)
    from present_serve[OF in2 nd2] have "note_id n2 \<in> note_id ` set ns"
      unfolding d3_def[symmetric] set_ns .
    then obtain i where i: "i < length ns" "note_id (ns ! i) = note_id n2"
      by (auto simp: in_set_conv_nth)
    from order[OF i(1) j(1) i(2) j(2)] i j show ?thesis by blast
  qed
  from assms(4) have "get_notes e3 d3 = (Response 200 (NotesJson ns), d3)"
    by (simp add: get_notes_def allAsync_def ns_def)
  with order both ts ids show ?thesis unfolding d3_def by blast
qed

theorem later_note_listed_first_witness:
  "post_notes (engine_ok 0) (JString [0x61]) (JString [0x62]) init_db =
     (Response 201 (NoteJson (Some
        \<lparr>note_id = 1, title = [0x61], content = [0x62], created_at = nowIso (engine_ok 0)\<rparr>)),
      \<lparr>rows = [\<lparr>note_id = 1, title = [0x61], content = [0x62],
                 created_at = nowIso (engine_ok 0)\<rparr>],
        seq = 1, last_insert_rowid = 1\<rparr>) \<and>
   post_notes (engine_ok 1000) (JString [0x65]) (JString [0x66])
      (serve [Create (engine_ok 500) (JString [0x63]) (JString [0x64])]
         \<lparr>rows = [\<lparr>note_id = 1, title = [0x61], content = [0x62],
                    created_at = nowIso (engine_ok 0)\<rparr>],
           seq = 1, last_insert_rowid = 1\<rparr>) =
     (Response 201 (NoteJson (Some
        \<lparr>note_id = 3, title = [0x65], content = [0x66], created_at = nowIso (engine_ok 1000)\<rparr>)),
      \<lparr>rows = [\<lparr>note_id = 1, title = [0x61], content = [0x62],
                 created_at = nowIso (engine_ok 0)\<rparr>,
               \<lparr>note_id = 2, title = [0x63], content = [0x64],
                 created_at = nowIso (engine_ok 500)\<rparr>,
               \<lparr>note_id = 3, title = [0x65], content = [0x66],
                 created_at = nowIso (engine_ok 1000)\<rparr>],
        seq = 3, last_insert_rowid = 3\<rparr>) \<and>
   nowIso (engine_ok 0) \<le> nowIso (engine_ok 1000) \<and> all_err (engine_ok 0) = None \<and>
   (\<exists>ns. get_notes (engine_ok 0)
          (serve [Create (engine_ok 2000) (JString [0x67]) (JString [0x68]),
                  Update (engine_ok 0) (Finite 1) (JString [0x7A]) JUndefined]
             \<lparr>rows = [\<lparr>note_id = 1, title = [0x61], content = [0x62],
                        created_at = nowIso (engine_ok 0)\<rparr>,
                      \<lparr>note_id = 2, title = [0x63], content = [0x64],
                        created_at = nowIso (engine_ok 500)\<rparr>,
                      \<lparr>note_id = 3, title = [0x65], content = [0x66],
                        created_at = nowIso (engine_ok 1000)\<rparr>],
               seq = 3, last_insert_rowid = 3\<rparr>) =
        (Response 200 (NotesJson ns),
         serve [Create (engine_ok 2000) (JString [0x67]) (JString [0x68]),
                Update (engine_ok 0) (Finite 1) (JString [0x7A]) JUndefined]
             \<lparr>rows = [\<lparr>note_id = 1, title = [0x61], content = [0x62],
                        created_at = nowIso (engine_ok 0)\<rparr>,
                      \<lparr>note_id = 2, title = [0x63], content = [0x64],
                        created_at = nowIso (engine_ok 500)\<rparr>,
                      \<lparr>note_id = 3, title = [0x65], content = [0x66],
                        created_at = nowIso (engine_ok 1000)\<rparr>],
               seq = 3, last_insert_rowid = 3\<rparr>) \<and>
        (\<exists>i j. i < j \<and> j < length ns \<and> note_id (ns ! i) = 3 \<and> note_id (ns ! j) = 1))"
proof -
  have p1: "post_notes (engine_ok 0) (JString [0x61]) (JString [0x62]) init_db =
     (Response 201 (NoteJson (Some
        \<lparr>note_id = 1, title = [0x61], content = [0x62], created_at = nowIso (engine_ok 0)\<rparr>)),
      \<lparr>rows = [\<lparr>note_id = 1, title = [0x61], content = [0x62],
                 created_at = nowIso (engine_ok 0)\<rparr>],
        seq = 1, last_insert_rowid = 1\<rparr>)"
    by (simp add: post_notes_def not_text_def trim_def is_white_space_def engine_ok_def
        init_db_def runAsync_def getAsync_def next_rowid_def Let_def bind_text_nowIso
        is_surrogate_def is_high_surrogate_def is_low_surrogate_def)
  have p2: "post_notes (engine_ok 1000) (JString [0x65]) (JString [0x66])
      (serve [Create (engine_ok 500) (JString [0x63]) (JString [0x64])]
         \<lparr>rows = [\<lparr>note_id = 1, title = [0x61], content = [0x62],
                    created_at = nowIso (engine_ok 0)\<rparr>],
           seq = 1, last_insert_rowid = 1\<rparr>) =
     (Response 201 (NoteJson (Some
        \<lparr>note_id = 3, title = [0x65], content = [0x66], created_at = nowIso (engine_ok 1000)\<rparr>)),
      \<lparr>rows = [\<lparr>note_id = 1, title = [0x61], content = [0x62],
                 created_at = nowIso (engine_ok 0)\<rparr>,
               \<lparr>note_id = 2, title = [0x63], content = [0x64],
                 created_at = nowIso (engine_ok 500)\<rparr>,
               \<lparr>note_id = 3, title = [0x65], content = [0x66],
                 created_at = nowIso (engine_ok 1000)\<rparr>],
        seq = 3, last_insert_rowid = 3\<rparr>)"
    by (simp add: post_notes_def not_text_def trim_def is_white_space_def engine_ok_def
        runAsync_def getAsync_def next_rowid_def Let_def bind_text_nowIso
        is_surrogate_def is_high_surrogate_def is_low_surrogate_def)
  have le: "nowIso (engine_ok 0) \<le> nowIso (engine_ok 1000)"
    by (simp add: nowIso_def engine_ok_def date_defs Let_def)
  have ok: "all_err (engine_ok 0) = None" by (simp add: engine_ok_def)
  have nd: "(\<forall>e. Delete e (Finite (of_nat 1)) \<notin>
               set [Create (engine_ok 500) (JString [0x63]) (JString [0x64])] \<union>
               set [Create (engine_ok 2000) (JString [0x67]) (JString [0x68]),
                    Update (engine_ok 0) (Finite 1) (JString [0x7A]) JUndefined]) \<and>
            (\<forall>e. Delete e (Finite (of_nat 3)) \<notin>
               set [Create (engine_ok 2000) (JString [0x67]) (JString [0x68]),
                    Update (engine_ok 0) (Finite 1) (JString [0x7A]) JUndefined])"
    by simp
  from later_note_listed_first[OF p1 p2 le ok,
      of "[Create (engine_ok 2000) (JString [0x67]) (JString [0x68]),
           Update (engine_ok 0) (Finite 1) (JString [0x7A]) JUndefined]"] nd
  have "\<exists>ns. get_notes (engine_ok 0)
          (serve [Create (engine_ok 2000) (JString [0x67]) (JString [0x68]),
                  Update (engine_ok 0) (Finite 1) (JString [0x7A]) JUndefined]
             \<lparr>rows = [\<lparr>note_id = 1, title = [0x61], content = [0x62],
                        created_at = nowIso (engine_ok 0)\<rparr>,
                      \<lparr>note_id = 2, title = [0x63], content = [0x64],
                        created_at = nowIso (engine_ok 500)\<rparr>,
                      \<lparr>note_id = 3, title = [0x65], content = [0x66],
                        created_at = nowIso (engine_ok 1000)\<rparr>],
               seq = 3, last_insert_rowid = 3\<rparr>) =
        (Response 200 (NotesJson ns),
         serve [Create (engine_ok 2000) (JString [0x67]) (JString [0x68]),
                Update (engine_ok 0) (Finite 1) (JString [0x7A]) JUndefined]
             \<lparr>rows = [\<lparr>note_id = 1, title = [0x61], content = [0x62],
                        created_at = nowIso (engine_ok 0)\<rparr>,
                      \<lparr>note_id = 2, title = [0x63], content = [0x64],
                        created_at = nowIso (engine_ok 500)\<rparr>,
                      \<lparr>note_id = 3, title = [0x65], content = [0x66],
                        created_at = nowIso (engine_ok 1000)\<rparr>],
               seq = 3, last_insert_rowid = 3\<rparr>) \<and>
        (\<exists>i j. i < j \<and> j < length ns \<and> note_id (ns ! i) = 3 \<and> note_id (ns ! j) = 1)"
    by (simp only: row.simps of_nat_numeral of_nat_1) blast
  with p1 p2 le ok show ?thesis by (simp only: simp_thms)
qed

text \<open>
  C9. An update or delete request whose identity is not a positive integer (a
  non-integer, a negative number, zero, NaN or an infinity) is answered 400
  \<^verbatim>\<open>invalid id\<close> with the store unchanged; an identity that is a positive integer is
  never answered so.
\<close>

theorem identity_check:
  "((\<nexists>k::nat. 0 < k \<and> i = Finite (of_nat k)) \<longrightarrow>
      put_note e i t' c' d = (Response 400 (ErrorJson ''invalid id''), d) \<and>
      delete_note e i d = (Response 400 (ErrorJson ''invalid id''), d)) \<and>
   ((\<exists>k::nat. 0 < k \<and> i = Finite (of_nat k)) \<longrightarrow>
      fst (put_note e i t' c' d) \<noteq> Response 400 (ErrorJson ''invalid id'') \<and>
      fst (delete_note e i d) \<noteq> Response 400 (ErrorJson ''invalid id''))"
proof (cases "isInteger i \<and> \<not> le_zero i")
  case True
  then have "fst (put_note e i t' c' d) \<noteq> Response 400 (ErrorJson ''invalid id'') \<and>
      fst (delete_note e i d) \<noteq> Response 400 (ErrorJson ''invalid id'')"
    by (simp add: put_note_def delete_note_def runAsync_def getAsync_def Let_def
        split: option.split)
  with True show ?thesis unfolding positive_integer_iff[symmetric] by (simp only: simp_thms)
next
  case False
  then have "put_note e i t' c' d = (Response 400 (ErrorJson ''invalid id''), d) \<and>
      delete_note e i d = (Response 400 (ErrorJson ''invalid id''), d)"
    by (auto simp: put_note_def delete_note_def)
  with False show ?thesis unfolding positive_integer_iff[symmetric] by (simp only: simp_thms)
qed

theorem identity_check_witness:
  "(\<nexists>k::nat. 0 < k \<and> Finite (3 / 2) = Finite (of_nat k)) \<and>
   put_note (engine_ok 0) (Finite (3 / 2)) (JString [0x61]) JUndefined init_db =
     (Response 400 (ErrorJson ''invalid id''), init_db) \<and>
   delete_note (engine_ok 0) (Finite (3 / 2)) init_db =
     (Response 400 (ErrorJson ''invalid id''), init_db) \<and>
   (\<exists>k::nat. 0 < k \<and> Finite 3 = Finite (of_nat k)) \<and>
   fst (put_note (engine_ok 0) (Finite 3) (JString [0x61]) JUndefined init_db) \<noteq>
     Response 400 (ErrorJson ''invalid id'') \<and>
   fst (delete_note (engine_ok 0) (Finite 3) init_db) \<noteq>
     Response 400 (ErrorJson ''invalid id'')"
proof -
  have "\<not> isInteger (Finite (3 / 2))" by code_simp
  then have h: "\<nexists>k::nat. 0 < k \<and> Finite (3 / 2) = Finite (of_nat k)"
    unfolding positive_integer_iff[symmetric] by (simp only: simp_thms)
  have "isInteger (Finite 3) \<and> \<not> le_zero (Finite 3)" by simp
  then have g: "\<exists>k::nat. 0 < k \<and> Finite 3 = Finite (of_nat k)"
    unfolding positive_integer_iff .
  from h g
    identity_check[of "Finite (3 / 2)" "engine_ok 0" "JString [0x61]" JUndefined init_db]
    identity_check[of "Finite 3" "engine_ok 0" "JString [0x61]" JUndefined init_db]
  show ?thesis by (simp only: simp_thms)
qed

text \<open>
  C10. A create request whose title or content is not a string, and an update request
  that supplies a title or content (anything but \<^verbatim>\<open>undefined\<close>, so also \<^verbatim>\<open>null\<close>) that is
  not a string, are answered 400 and leave the store unchanged.
\<close>

theorem non_string_rejected:
  "((\<nexists>s. t' = JString s) \<or> (\<nexists>s. c' = JString s) \<longrightarrow>
      (\<exists>msg. post_notes e t' c' d = (Response 400 (ErrorJson msg), d))) \<and>
   ((t' \<noteq> JUndefined \<and> (\<nexists>s. t' = JString s)) \<or> (c' \<noteq> JUndefined \<and> (\<nexists>s. c' = JString s)) \<longrightarrow>
      (\<exists>msg. put_note e i t' c' d = (Response 400 (ErrorJson msg), d)))"
proof (intro conjI impI)
  assume "(\<nexists>s. t' = JString s) \<or> (\<nexists>s. c' = JString s)"
  then have "not_text t' \<or> not_text c'" using not_text_non_string by blast
  then show "\<exists>msg. post_notes e t' c' d = (Response 400 (ErrorJson msg), d)"
    by (auto simp: post_notes_def)
next
  assume "(t' \<noteq> JUndefined \<and> (\<nexists>s. t' = JString s)) \<or> (c' \<noteq> JUndefined \<and> (\<nexists>s. c' = JString s))"
  then have "(t' \<noteq> JUndefined \<and> not_text t') \<or> (c' \<noteq> JUndefined \<and> not_text c')"
    using not_text_non_string by blast
  then show "\<exists>msg. put_note e i t' c' d = (Response 400 (ErrorJson msg), d)"
    by (auto simp: put_note_def)
qed

theorem non_string_rejected_witness:
  "(\<nexists>s. JNumber (Finite 7) = JString s) \<and> JNull \<noteq> JUndefined \<and> (\<nexists>s. JNull = JString s) \<and>
   post_notes (engine_ok 0) (JNumber (Finite 7)) (JString [0x62]) init_db =
     (Response 400 (ErrorJson ''title is required''), init_db) \<and>
   put_note (engine_ok 0) (Finite 1) JNull (JString [0x62])
       \<lparr>rows = [\<lparr>note_id = 1, title = [0x61], content = [0x63], created_at = [0x31]\<rparr>],
         seq = 1, last_insert_rowid = 1\<rparr> =
     (Response 400 (ErrorJson ''title must be a non-empty string''),
       \<lparr>rows = [\<lparr>note_id = 1, title = [0x61], content = [0x63], created_at = [0x31]\<rparr>],
         seq = 1, last_insert_rowid = 1\<rparr>)"
  using non_string_rejected[of "JNumber (Finite 7)" "JString [0x62]" "engine_ok 0" init_db "Finite 1"]
    non_string_rejected[of JNull "JString [0x62]" "engine_ok 0"
       "\<lparr>rows = [\<lparr>note_id = 1, title = [0x61], content = [0x63], created_at = [0x31]\<rparr>],
         seq = 1, last_insert_rowid = 1\<rparr>" "Finite 1"]
  by (simp add: post_notes_def put_note_def not_text_def)

end
